theory Spec2Isabelle
  imports Complex_Main "HOL-Library.Word" "HOL-Library.Sublist"
begin

section \<open>Values\<close>

text \<open>
  A value of the C++ type \<open>float\<close> is read as the real number it denotes; a literal such
  as \<open>0.1f\<close> is the single-precision number it denotes, not the decimal. The widget never
  computes with floats itself: it copies them and hands them to the toolkit. The toolkit's
  arithmetic, the single-precision addition of \<open>QVector3D::operator+=\<close> included, rounds, and
  is a parameter of the model (a field of the environment below).
\<close>

type_synonym float = real

text \<open>\<open>enum Eye { Left, Right }\<close>; the same two values index the hands.\<close>

datatype Eye = Left | Right

text \<open>One row \<open>float[4]\<close> of a matrix.\<close>

datatype row4 = Row4 float float float float

text \<open>\<open>vr::HmdMatrix34_t\<close> is \<open>float m[3][4]\<close>, \<open>vr::HmdMatrix44_t\<close> is \<open>float m[4][4]\<close>.\<close>

datatype HmdMatrix34_t = HmdMatrix34_t row4 row4 row4

datatype HmdMatrix44_t = HmdMatrix44_t row4 row4 row4 row4

text \<open>
  \<open>QMatrix4x4\<close>, built as the sixteen-argument constructor of the library builds it:
  the arguments are the entries in row-major order.
\<close>

datatype QMatrix4x4 = QMatrix4x4
  float float float float
  float float float float
  float float float float
  float float float float

datatype QVector3D = QVector3D float float float

datatype QQuaternion = QQuaternion float float float float

datatype QSize = QSize int int

datatype QRect = QRect int int int int

fun width :: "QSize \<Rightarrow> int" where
  "width (QSize w h) = w"

fun height :: "QSize \<Rightarrow> int" where
  "height (QSize w h) = h"

fun x :: "QVector3D \<Rightarrow> float" where
  "x (QVector3D a b c) = a"

fun y :: "QVector3D \<Rightarrow> float" where
  "y (QVector3D a b c) = b"

fun z :: "QVector3D \<Rightarrow> float" where
  "z (QVector3D a b c) = c"

text \<open>
  \<open>QVector3D::operator+=\<close>: componentwise, each component by the machine's single-precision
  addition, which is the first argument.
\<close>

fun plus_assign :: "(float \<Rightarrow> float \<Rightarrow> float) \<Rightarrow> QVector3D \<Rightarrow> QVector3D \<Rightarrow> QVector3D" where
  "plus_assign add (QVector3D a b c) (QVector3D d e f) = QVector3D (add a d) (add b e) (add c f)"

text \<open>The default-constructed \<open>QMatrix4x4\<close> is the identity.\<close>

definition identity_matrix :: QMatrix4x4 where
  "identity_matrix = QMatrix4x4 1 0 0 0  0 1 0 0  0 0 1 0  0 0 0 1"

text \<open>The rows of the three matrix types, top to bottom, and the entries of a row.\<close>

fun rows_34 :: "HmdMatrix34_t \<Rightarrow> row4 list" where
  "rows_34 (HmdMatrix34_t r0 r1 r2) = [r0, r1, r2]"

fun rows_44 :: "HmdMatrix44_t \<Rightarrow> row4 list" where
  "rows_44 (HmdMatrix44_t r0 r1 r2 r3) = [r0, r1, r2, r3]"

fun rows_Qt :: "QMatrix4x4 \<Rightarrow> row4 list" where
  "rows_Qt (QMatrix4x4 a0 a1 a2 a3 b0 b1 b2 b3 c0 c1 c2 c3 d0 d1 d2 d3) =
     [Row4 a0 a1 a2 a3, Row4 b0 b1 b2 b3, Row4 c0 c1 c2 c3, Row4 d0 d1 d2 d3]"

fun entries :: "row4 \<Rightarrow> float list" where
  "entries (Row4 a b c d) = [a, b, c, d]"

text \<open>The top three rows of a 4x4 SDK matrix, as a 3x4 SDK matrix.\<close>

fun top_rows :: "HmdMatrix44_t \<Rightarrow> HmdMatrix34_t" where
  "top_rows (HmdMatrix44_t r0 r1 r2 r3) = HmdMatrix34_t r0 r1 r2"

fun last_row :: "HmdMatrix44_t \<Rightarrow> row4" where
  "last_row (HmdMatrix44_t r0 r1 r2 r3) = r3"

section \<open>Matrix conversion\<close>

text \<open>The two overloads of \<open>COpenVROpenGLWidget::vrMatrixToQt\<close>.\<close>

fun vrMatrixToQt_34 :: "HmdMatrix34_t \<Rightarrow> QMatrix4x4" where
  "vrMatrixToQt_34 (HmdMatrix34_t (Row4 m00 m01 m02 m03) (Row4 m10 m11 m12 m13)
       (Row4 m20 m21 m22 m23)) =
     QMatrix4x4
       m00 m01 m02 m03
       m10 m11 m12 m13
       m20 m21 m22 m23
       0 0 0 1"

fun vrMatrixToQt_44 :: "HmdMatrix44_t \<Rightarrow> QMatrix4x4" where
  "vrMatrixToQt_44 (HmdMatrix44_t (Row4 m00 m01 m02 m03) (Row4 m10 m11 m12 m13)
       (Row4 m20 m21 m22 m23) (Row4 m30 m31 m32 m33)) =
     QMatrix4x4
       m00 m01 m02 m03
       m10 m11 m12 m13
       m20 m21 m22 m23
       m30 m31 m32 m33"

section \<open>The SDK's and the toolkit's types\<close>

text \<open>Enumerations of the VR SDK's header, with the names the widget uses.\<close>

datatype EVREye = Eye_Left | Eye_Right

datatype ETrackedDeviceClass =
    TrackedDeviceClass_Invalid
  | TrackedDeviceClass_HMD
  | TrackedDeviceClass_Controller
  | TrackedDeviceClass_GenericTracker
  | TrackedDeviceClass_TrackingReference
  | TrackedDeviceClass_DisplayRedirect

datatype ETrackedControllerRole =
    TrackedControllerRole_Invalid
  | TrackedControllerRole_LeftHand
  | TrackedControllerRole_RightHand
  | TrackedControllerRole_OptOut
  | TrackedControllerRole_Treadmill
  | TrackedControllerRole_Stylus

datatype EVRInitError = VRInitError_None | VRInitError_Unknown | VRInitError_Other nat

datatype EVRRenderModelError =
  VRRenderModelError_None | VRRenderModelError_Loading | VRRenderModelError_Other nat

datatype TrackedDeviceProperty = Prop_RenderModelName_String | Prop_Other nat

datatype ETextureType = TextureType_OpenGL

datatype EColorSpace = ColorSpace_Gamma

text \<open>The interface object behind \<open>vr::IVRSystem*\<close>; \<open>None\<close> is the null pointer.\<close>

datatype IVRSystem = IVRSystem

text \<open>\<open>vr::TrackedDevicePose_t\<close>: the two fields the widget reads.\<close>

record TrackedDevicePose_t =
  mDeviceToAbsoluteTracking :: HmdMatrix34_t
  bPoseIsValid :: bool

text \<open>\<open>vr::RenderModel_t\<close> and \<open>vr::RenderModel_TextureMap_t\<close>: the fields \<open>LoadModel\<close> reads.\<close>

record RenderModel_t =
  diffuseTextureId :: int
  unTriangleCount :: "32 word"

record RenderModel_TextureMap_t =
  unWidth :: "16 word"
  unHeight :: "16 word"

type_synonym GLuint = "32 word"

type_synonym GLenum = nat

definition GL_RGBA8 :: GLenum where
  "GL_RGBA8 = 0x8058"

datatype GLcap = GL_DEPTH_TEST | GL_MULTISAMPLE

text \<open>\<open>QOpenGLShader::Vertex\<close> and \<open>QOpenGLShader::Fragment\<close>.\<close>

datatype QOpenGLShader_type = Vertex | Fragment

datatype Attachment = NoAttachment | CombinedDepthStencil | Depth

record QOpenGLFramebufferObjectFormat =
  attachment :: Attachment
  internalTextureFormat :: GLenum
  samples :: int

text \<open>
  A framebuffer object: the size and format it was constructed with, and what the GL made
  of them (\<open>isValid()\<close>, \<open>texture()\<close>).
\<close>

record QOpenGLFramebufferObject =
  fbo_width :: int
  fbo_height :: int
  fbo_format :: QOpenGLFramebufferObjectFormat
  isValid :: bool
  texture :: GLuint

text \<open>\<open>vr::Texture_t\<close>.\<close>

datatype Texture_t = Texture_t GLuint ETextureType EColorSpace

section \<open>The widget's classes\<close>

record CEyeInfos =
  m_projection :: QMatrix4x4
  m_view :: QMatrix4x4
  m_frameBuffer :: "QOpenGLFramebufferObject option"
  m_resolveBuffer :: "QOpenGLFramebufferObject option"
  m_size :: QSize

text \<open>
  \<open>CRenderModel\<close>: its name and vertex count; the GL object names and the shader program
  are not represented.
\<close>

record CRenderModel =
  m_sModelName :: string
  m_unVertexCount :: "32 word"

record SControllerInfos =
  m_rmat4Pose :: QMatrix4x4
  m_pRenderModel :: "CRenderModel option"
  m_bShowController :: bool

text \<open>
  The members of \<open>COpenVROpenGLWidget\<close>. The arrays indexed by a device number are
  functions of the index, read and written below \<open>k_unMaxTrackedDeviceCount\<close> only; the two
  arrays of length 2 are functions of \<open>Eye\<close>. A pointer member is an \<open>option\<close>, \<open>None\<close> the
  null pointer.
\<close>

record COpenVROpenGLWidget =
  m_vrSystem :: "IVRSystem option"
  m_trackedDevicePose :: "nat \<Rightarrow> TrackedDevicePose_t"
  m_matrixDevicePose :: "nat \<Rightarrow> QMatrix4x4"
  m_hmdPose :: QMatrix4x4
  m_eyeInfos :: "Eye \<Rightarrow> CEyeInfos option"
  m_controllers :: "Eye \<Rightarrow> SControllerInfos"
  m_cameraTranslation :: QVector3D
  m_cameraRotations :: QVector3D

section \<open>Calls, aborts and the environment\<close>

text \<open>
  What a member function does to the outside, in order: GL calls, calls into the SDK that
  act, dialogs and log lines, and calls of the hooks a subclass implements. Events of an eye's
  buffers carry the eye whose \<open>CEyeInfos\<close> made them.
\<close>

datatype event =
    EvInitializeOpenGLFunctions
  | EvGlEnable GLcap
  | EvGlDisable GLcap
  | EvGlClearColor float float float float
  | EvGlClear
  | EvGlViewport int int int int
  | EvDebug string
  | EvCritical string
  | EvMessageBoxCritical string string
  | EvVR_Init
  | EvVR_Shutdown
  | EvNewFramebuffer int int QOpenGLFramebufferObjectFormat
  | EvBind Eye QOpenGLFramebufferObject
  | EvRelease Eye QOpenGLFramebufferObject
  | EvBlit Eye "QOpenGLFramebufferObject option" QRect "QOpenGLFramebufferObject option" QRect
  | EvWaitGetPoses
  | EvAddShaderFromSourceCode QOpenGLShader_type
  | EvLink
  | EvInitModel string
  | EvFreeRenderModel
  | EvFreeTexture
  | EvDraw CRenderModel QMatrix4x4
  | EvRender Eye QMatrix4x4 QMatrix4x4
  | EvSubmit EVREye Texture_t
  | EvInitializeRendering
  | EvUpdateRendering
  | EvInitializeInputs
  | EvUpdateInputs
  | EvUpdate

text \<open>
  A call through a null pointer member is undefined behaviour in C++; the model stops there.
  A polling loop that never leaves is the second way not to return.
\<close>

datatype abort = NullPointerDereference | DoesNotReturn

text \<open>The calls made so far, and either the abort or the value returned.\<close>

type_synonym 'a action = "event list \<times> (abort + 'a)"

definition and_then :: "'a action \<Rightarrow> ('a \<Rightarrow> 'b action) \<Rightarrow> 'b action" where
  "and_then m f =
     (case m of
        (t, Inl e) \<Rightarrow> (t, Inl e)
      | (t, Inr a) \<Rightarrow> (case f a of (t', r) \<Rightarrow> (t @ t', r)))"

text \<open>A \<open>for\<close> loop over the given indices, the state threaded through the bodies.\<close>

fun for_each :: "'i list \<Rightarrow> ('i \<Rightarrow> 's \<Rightarrow> 's action) \<Rightarrow> 's \<Rightarrow> 's action" where
  "for_each [] body s = ([], Inr s)"
| "for_each (i # is) body s = and_then (body i s) (for_each is body)"

text \<open>
  What the SDK, the GL and the toolkit answer during one call of a member function. The
  toolkit's functions on matrices, vectors, floats and strings (\<open>QString::arg\<close>) are fields
  too: the statements hold for whatever they compute. \<open>program_log\<close> is the shader
  program's \<open>log()\<close> when it is read. The SDK's interface accessors other than the
  compositor check of \<open>InitializeVR\<close> are taken to return their interfaces.
\<close>

record env =
  VR_IsRuntimeInstalled :: bool
  VR_IsHmdPresent :: bool
  VR_Init :: "IVRSystem option \<times> EVRInitError"
  VR_GetVRInitErrorAsEnglishDescription :: "EVRInitError \<Rightarrow> string"
  VRCompositor :: bool
  GetRecommendedRenderTargetSize :: "32 word \<times> 32 word"
  GetTrackedDeviceClass :: "nat \<Rightarrow> ETrackedDeviceClass"
  GetControllerRoleForTrackedDeviceIndex :: "nat \<Rightarrow> ETrackedControllerRole"
  GetStringTrackedDeviceProperty :: "nat \<Rightarrow> TrackedDeviceProperty \<Rightarrow> string option"
  GetEyeToHeadTransform :: "EVREye \<Rightarrow> HmdMatrix34_t"
  GetProjectionMatrix :: "EVREye \<Rightarrow> float \<Rightarrow> float \<Rightarrow> HmdMatrix44_t"
  WaitGetPoses :: "nat \<Rightarrow> TrackedDevicePose_t"
  LoadRenderModel_Async :: "string \<Rightarrow> nat \<Rightarrow> EVRRenderModelError \<times> RenderModel_t"
  LoadTexture_Async :: "int \<Rightarrow> nat \<Rightarrow> EVRRenderModelError \<times> RenderModel_TextureMap_t"
  GetRenderModelErrorNameFromEnum :: "EVRRenderModelError \<Rightarrow> string"
  QString_arg :: "string \<Rightarrow> string \<Rightarrow> string"
  QString_arg_int :: "string \<Rightarrow> int \<Rightarrow> string"
  addShaderFromSourceCode :: "QOpenGLShader_type \<Rightarrow> bool"
  link :: bool
  program_log :: string
  default_format :: QOpenGLFramebufferObjectFormat
  framebuffers :: "Eye \<Rightarrow> (bool \<times> GLuint) \<times> (bool \<times> GLuint)"
  windowTitle :: string
  widget_width :: int
  widget_height :: int
  inverted :: "QMatrix4x4 \<Rightarrow> QMatrix4x4"
  times :: "QMatrix4x4 \<Rightarrow> QMatrix4x4 \<Rightarrow> QMatrix4x4"
  map_vector :: "QMatrix4x4 \<Rightarrow> QVector3D \<Rightarrow> QVector3D"
  rotate :: "QMatrix4x4 \<Rightarrow> QQuaternion \<Rightarrow> QMatrix4x4"
  translate :: "QMatrix4x4 \<Rightarrow> QVector3D \<Rightarrow> QMatrix4x4"
  fromEulerAngles :: "float \<Rightarrow> float \<Rightarrow> float \<Rightarrow> QQuaternion"
  float_add :: "float \<Rightarrow> float \<Rightarrow> float"

text \<open>
  Constants of the SDK's header and the widget's macros. \<open>0.1f\<close> is
  13421773 / 134217728; 180 and 10000 are single-precision numbers.
\<close>

definition k_unMaxTrackedDeviceCount :: nat where
  "k_unMaxTrackedDeviceCount = 64"

definition k_unTrackedDeviceIndex_Hmd :: nat where
  "k_unTrackedDeviceIndex_Hmd = 0"

definition INITIAL_ROTATION :: QVector3D where
  "INITIAL_ROTATION = QVector3D 0 180 0"

definition INITIAL_TRANSLATION :: QVector3D where
  "INITIAL_TRANSLATION = QVector3D 0 0 0"

definition NEAR_CLIP :: float where
  "NEAR_CLIP = 13421773 / 134217728"

definition FAR_CLIP :: float where
  "FAR_CLIP = 10000"

text \<open>\<open>static_cast<vr::EVREye>(eye)\<close> and the loop \<open>for (eye = 0; eye < 2; eye++)\<close>.\<close>

fun to_EVREye :: "Eye \<Rightarrow> EVREye" where
  "to_EVREye Left = Eye_Left"
| "to_EVREye Right = Eye_Right"

definition both :: "Eye list" where
  "both = [Left, Right]"

section \<open>Construction and the camera\<close>

text \<open>
  The constructor. \<open>m_trackedDevicePose\<close> is not initialised by it: its content is whatever
  the argument says. The matrices are default-constructed, the controllers take their
  in-class initialisers.
\<close>

definition COpenVROpenGLWidget_ctor :: "(nat \<Rightarrow> TrackedDevicePose_t) \<Rightarrow> COpenVROpenGLWidget" where
  "COpenVROpenGLWidget_ctor uninitialised =
     \<lparr> m_vrSystem = None,
       m_trackedDevicePose = uninitialised,
       m_matrixDevicePose = (\<lambda>i. identity_matrix),
       m_hmdPose = identity_matrix,
       m_eyeInfos = (\<lambda>eye. None),
       m_controllers = (\<lambda>hand. \<lparr> m_rmat4Pose = identity_matrix, m_pRenderModel = None,
                                      m_bShowController = False \<rparr>),
       m_cameraTranslation = INITIAL_TRANSLATION,
       m_cameraRotations = INITIAL_ROTATION \<rparr>"

definition TranslateEyes ::
  "env \<Rightarrow> float \<Rightarrow> float \<Rightarrow> float \<Rightarrow> COpenVROpenGLWidget \<Rightarrow> COpenVROpenGLWidget" where
  "TranslateEyes env i_deltaX i_deltaY i_deltaZ w =
     (let rollPitchYaw = rotate env identity_matrix
            (fromEulerAngles env (x (m_cameraRotations w)) (y (m_cameraRotations w))
               (z (m_cameraRotations w)));
          translation = map_vector env rollPitchYaw (QVector3D i_deltaX i_deltaY i_deltaZ)
      in w\<lparr> m_cameraTranslation :=
             plus_assign (float_add env) (m_cameraTranslation w) translation \<rparr>)"

definition ResetEyesPositions :: "COpenVROpenGLWidget \<Rightarrow> COpenVROpenGLWidget" where
  "ResetEyesPositions w = w\<lparr> m_cameraTranslation := INITIAL_TRANSLATION \<rparr>"

definition GetTranslations :: "COpenVROpenGLWidget \<Rightarrow> QVector3D" where
  "GetTranslations w = m_cameraTranslation w"

definition RotateEyes ::
  "env \<Rightarrow> float \<Rightarrow> float \<Rightarrow> float \<Rightarrow> COpenVROpenGLWidget \<Rightarrow> COpenVROpenGLWidget" where
  "RotateEyes env i_yaw i_pitch i_roll w =
     w\<lparr> m_cameraRotations :=
         plus_assign (float_add env) (m_cameraRotations w) (QVector3D i_yaw i_pitch i_roll) \<rparr>"

definition ResetEyesRotations :: "COpenVROpenGLWidget \<Rightarrow> COpenVROpenGLWidget" where
  "ResetEyesRotations w = w\<lparr> m_cameraRotations := INITIAL_ROTATION \<rparr>"

definition GetRotations :: "COpenVROpenGLWidget \<Rightarrow> QVector3D" where
  "GetRotations w = m_cameraRotations w"

definition GetControllerPose :: "COpenVROpenGLWidget \<Rightarrow> Eye \<Rightarrow> QMatrix4x4" where
  "GetControllerPose w i_hand = m_rmat4Pose (m_controllers w i_hand)"

definition GetCameraMatrix :: "env \<Rightarrow> COpenVROpenGLWidget \<Rightarrow> QMatrix4x4" where
  "GetCameraMatrix env w =
     translate env
       (rotate env identity_matrix
          (fromEulerAngles env (x (m_cameraRotations w)) (y (m_cameraRotations w))
             (z (m_cameraRotations w))))
       (m_cameraTranslation w)"

text \<open>The public camera calls a client can make, and a sequence of them.\<close>

datatype camera_call =
    CallTranslateEyes float float float
  | CallRotateEyes float float float
  | CallResetEyesPositions
  | CallResetEyesRotations

fun camera_step :: "env \<Rightarrow> camera_call \<Rightarrow> COpenVROpenGLWidget \<Rightarrow> COpenVROpenGLWidget" where
  "camera_step env (CallTranslateEyes dx dy dz) w = TranslateEyes env dx dy dz w"
| "camera_step env (CallRotateEyes a b c) w = RotateEyes env a b c w"
| "camera_step env CallResetEyesPositions w = ResetEyesPositions w"
| "camera_step env CallResetEyesRotations w = ResetEyesRotations w"

fun camera_run :: "env \<Rightarrow> camera_call list \<Rightarrow> COpenVROpenGLWidget \<Rightarrow> COpenVROpenGLWidget" where
  "camera_run env [] w = w"
| "camera_run env (c # cs) w = camera_run env cs (camera_step env c w)"


section \<open>The eyes' surfaces\<close>

text \<open>
  \<open>CEyeInfos::CEyeInfos\<close>. The second argument is what the GL answers to the two
  allocations (validity and texture name of each).
\<close>

definition new_QOpenGLFramebufferObject ::
  "bool \<times> GLuint \<Rightarrow> int \<Rightarrow> int \<Rightarrow> QOpenGLFramebufferObjectFormat \<Rightarrow> QOpenGLFramebufferObject" where
  "new_QOpenGLFramebufferObject answer w h fmt =
     \<lparr> fbo_width = w, fbo_height = h, fbo_format = fmt,
       isValid = fst answer, texture = snd answer \<rparr>"

definition CEyeInfos_ctor ::
  "env \<Rightarrow> (bool \<times> GLuint) \<times> (bool \<times> GLuint) \<Rightarrow> QSize \<Rightarrow> event list \<times> CEyeInfos" where
  "CEyeInfos_ctor env answers i_eyeSize =
     (let buffFormat = (default_format env)
            \<lparr> attachment := Depth, internalTextureFormat := GL_RGBA8, samples := 4 \<rparr>;
          resolveFormat = (default_format env)
            \<lparr> internalTextureFormat := GL_RGBA8, samples := 0 \<rparr>
      in ([EvInitializeOpenGLFunctions,
           EvNewFramebuffer (width i_eyeSize) (height i_eyeSize) buffFormat,
           EvNewFramebuffer (width i_eyeSize) (height i_eyeSize) resolveFormat],
          \<lparr> m_projection = identity_matrix,
            m_view = identity_matrix,
            m_frameBuffer = Some (new_QOpenGLFramebufferObject (fst answers)
               (width i_eyeSize) (height i_eyeSize) buffFormat),
            m_resolveBuffer = Some (new_QOpenGLFramebufferObject (snd answers)
               (width i_eyeSize) (height i_eyeSize) resolveFormat),
            m_size = i_eyeSize \<rparr>))"

text \<open>The methods of \<open>CEyeInfos\<close>; the \<open>Eye\<close> names the object they are called on.\<close>

definition SetSurface :: "Eye \<Rightarrow> CEyeInfos \<Rightarrow> unit action" where
  "SetSurface eye e =
     and_then ([EvGlViewport 0 0 (width (m_size e)) (height (m_size e)), EvGlEnable GL_MULTISAMPLE],
               Inr ())
       (\<lambda>_. case m_frameBuffer e of
               None \<Rightarrow> ([], Inl NullPointerDereference)
             | Some fb \<Rightarrow> ([EvBind eye fb], Inr ()))"

definition UnsetSurface :: "Eye \<Rightarrow> CEyeInfos \<Rightarrow> unit action" where
  "UnsetSurface eye e =
     (case m_frameBuffer e of
        None \<Rightarrow> ([], Inl NullPointerDereference)
      | Some fb \<Rightarrow>
          (let sourceAndTargetRect = QRect 0 0 (width (m_size e)) (height (m_size e))
           in ([EvRelease eye fb,
                EvBlit eye (m_resolveBuffer e) sourceAndTargetRect (m_frameBuffer e)
                  sourceAndTargetRect],
               Inr ())))"

definition Texture :: "CEyeInfos \<Rightarrow> GLuint action" where
  "Texture e =
     (case m_resolveBuffer e of
        None \<Rightarrow> ([], Inl NullPointerDereference)
      | Some rb \<Rightarrow> ([], Inr (texture rb)))"

definition SetTransformMatrix :: "QMatrix4x4 \<Rightarrow> QMatrix4x4 \<Rightarrow> CEyeInfos \<Rightarrow> CEyeInfos" where
  "SetTransformMatrix i_view i_projection e = e\<lparr> m_view := i_view, m_projection := i_projection \<rparr>"

definition GetProjectionMatrix_eye :: "CEyeInfos \<Rightarrow> QMatrix4x4" where
  "GetProjectionMatrix_eye e = m_projection e"

definition GetViewMatrix :: "CEyeInfos \<Rightarrow> QMatrix4x4" where
  "GetViewMatrix e = m_view e"

definition IsValid :: "CEyeInfos \<Rightarrow> bool" where
  "IsValid e =
     (case m_frameBuffer e of
        None \<Rightarrow> False
      | Some fb \<Rightarrow>
          (case m_resolveBuffer e of
             None \<Rightarrow> False
           | Some rb \<Rightarrow> isValid fb \<and> isValid rb))"

section \<open>Render models\<close>

text \<open>
  The polling loops of \<open>LoadModel\<close>: ask again while the SDK answers
  \<open>VRRenderModelError_Loading\<close>. \<open>answers k\<close> is the SDK's answer to call number \<open>k\<close>;
  \<open>None\<close> is a loop that never leaves.
\<close>

partial_function (option) poll ::
  "(nat \<Rightarrow> EVRRenderModelError \<times> 'a) \<Rightarrow> nat \<Rightarrow> (EVRRenderModelError \<times> 'a) option" where
  "poll answers k =
     (if fst (answers k) \<noteq> VRRenderModelError_Loading then Some (answers k)
      else poll answers (Suc k))"

text \<open>
  \<open>CRenderModel::CRenderModel\<close>: compile the vertex shader, the fragment shader, link; the
  first step that fails logs the program's log and ends the constructor. The object exists in
  every case. \<open>m_unVertexCount\<close> is left unset by the constructor (written as 0 here) and set by
  \<open>InitModel\<close>.
\<close>

definition CRenderModel_ctor :: "env \<Rightarrow> string \<Rightarrow> event list \<times> CRenderModel" where
  "CRenderModel_ctor env i_sRenderModelName =
     (let m = \<lparr> m_sModelName = i_sRenderModelName, m_unVertexCount = 0 \<rparr>
      in if \<not> addShaderFromSourceCode env Vertex then
           ([EvInitializeOpenGLFunctions, EvAddShaderFromSourceCode Vertex,
             EvDebug (program_log env)], m)
         else if \<not> addShaderFromSourceCode env Fragment then
           ([EvInitializeOpenGLFunctions, EvAddShaderFromSourceCode Vertex,
             EvAddShaderFromSourceCode Fragment, EvDebug (program_log env)], m)
         else if \<not> link env then
           ([EvInitializeOpenGLFunctions, EvAddShaderFromSourceCode Vertex,
             EvAddShaderFromSourceCode Fragment, EvLink, EvDebug (program_log env)], m)
         else
           ([EvInitializeOpenGLFunctions, EvAddShaderFromSourceCode Vertex,
             EvAddShaderFromSourceCode Fragment, EvLink], m))"

text \<open>
  \<open>InitModel\<close>: \<open>EvInitModel\<close> stands for its GL calls, which create and fill the vertex
  array, the two buffers and the texture. It sets the vertex count and always returns true.
\<close>

definition InitModel ::
  "RenderModel_t \<Rightarrow> RenderModel_TextureMap_t \<Rightarrow> CRenderModel \<Rightarrow> event list \<times> bool \<times> CRenderModel" where
  "InitModel i_vrModel i_vrDiffuseTexture m =
     ([EvInitModel (m_sModelName m)],
      True,
      m\<lparr> m_unVertexCount := unTriangleCount i_vrModel * 3 \<rparr>)"

text \<open>
  \<open>CRenderModel::LoadModel\<close>, called with no \<open>o_errorMessage\<close> as the widget calls it. The
  result is the pointer returned, \<open>None\<close> for \<open>nullptr\<close>. The log lines are built by
  \<open>QString::arg\<close>, in the order of the calls.
\<close>

definition LoadModel :: "env \<Rightarrow> string \<Rightarrow> CRenderModel option action" where
  "LoadModel env i_modelName =
     (case poll (LoadRenderModel_Async env i_modelName) 0 of
        None \<Rightarrow> ([], Inl DoesNotReturn)
      | Some (error, pModel) \<Rightarrow>
          if error \<noteq> VRRenderModelError_None then
            ([EvDebug (QString_arg env
                 (QString_arg env ''Unable to load render model %1 - %2'' i_modelName)
                 (GetRenderModelErrorNameFromEnum env error))], Inr None)
          else
            (case poll (LoadTexture_Async env (diffuseTextureId pModel)) 0 of
               None \<Rightarrow> ([], Inl DoesNotReturn)
             | Some (error', pTexture) \<Rightarrow>
                 if error' \<noteq> VRRenderModelError_None then
                   ([EvDebug (QString_arg env
                        (QString_arg_int env
                           ''Unable to load render texture id:%1 for render model %2''
                           (diffuseTextureId pModel))
                        i_modelName),
                     EvFreeRenderModel], Inr None)
                 else
                   (case CRenderModel_ctor env i_modelName of
                      (t0, pRenderModel0) \<Rightarrow>
                        (case InitModel pModel pTexture pRenderModel0 of
                           (t, initialised, pRenderModel) \<Rightarrow>
                             if \<not> initialised then
                               (t0 @ t @ [EvDebug (QString_arg env
                                     ''Unable to create GL model from render model %1''
                                     i_modelName),
                                   EvFreeRenderModel, EvFreeTexture], Inr None)
                             else (t0 @ t @ [EvFreeRenderModel, EvFreeTexture],
                                   Inr (Some pRenderModel))))))"

definition Draw :: "CRenderModel \<Rightarrow> QMatrix4x4 \<Rightarrow> unit action" where
  "Draw m i_mvpMatrix = ([EvDraw m i_mvpMatrix], Inr ())"

section \<open>Initialisation\<close>

definition InitializeVR :: "env \<Rightarrow> COpenVROpenGLWidget \<Rightarrow> (bool \<times> COpenVROpenGLWidget) action" where
  "InitializeVR env w =
     (if \<not> VR_IsRuntimeInstalled env then
        ([EvDebug ''No VR runtime installed.'',
          EvMessageBoxCritical (windowTitle env) ''No VR runtime installed.''],
         Inr (False, w))
      else if \<not> VR_IsHmdPresent env then
        ([EvDebug ''Any headset found.'',
          EvMessageBoxCritical (windowTitle env) ''Any headset found.''],
         Inr (False, w))
      else
        (let initErr = snd (VR_Init env);
             w1 = w\<lparr> m_vrSystem := fst (VR_Init env) \<rparr>
         in if initErr \<noteq> VRInitError_None then
              (let errMessage = QString_arg env ''Unable to init VR runtime: %1''
                     (VR_GetVRInitErrorAsEnglishDescription env initErr)
               in ([EvVR_Init, EvDebug errMessage,
                    EvMessageBoxCritical (windowTitle env) errMessage],
                   Inr (False, w1\<lparr> m_vrSystem := None \<rparr>)))
            else if \<not> VRCompositor env then
              (let errMessage = ''Compositor initialization failed. See log file for details''
               in ([EvVR_Init, EvCritical errMessage,
                    EvMessageBoxCritical (windowTitle env) errMessage, EvVR_Shutdown],
                   Inr (False, w1\<lparr> m_vrSystem := None \<rparr>)))
            else ([EvVR_Init], Inr (True, w1))))"

text \<open>
  The body of the loop of \<open>InitializeEyesRendering\<close>; the state of the loop is \<open>noErr\<close>
  and the widget.
\<close>

definition InitializeEyesRendering_eye ::
  "env \<Rightarrow> QSize \<Rightarrow> Eye \<Rightarrow> bool \<times> COpenVROpenGLWidget \<Rightarrow> (bool \<times> COpenVROpenGLWidget) action" where
  "InitializeEyesRendering_eye env eyeSize eye s =
     (case s of (noErr, w) \<Rightarrow>
        (case CEyeInfos_ctor env (framebuffers env eye) eyeSize of
           (t, e) \<Rightarrow>
             (t, Inr ((noErr \<and> IsValid e), w\<lparr> m_eyeInfos := (m_eyeInfos w)(eye := Some e) \<rparr>))))"

text \<open>\<open>static_cast<int>\<close> of a \<open>uint32_t\<close> keeps the 32 bits and reads them as signed.\<close>

definition InitializeEyesRendering ::
  "env \<Rightarrow> COpenVROpenGLWidget \<Rightarrow> (bool \<times> COpenVROpenGLWidget) action" where
  "InitializeEyesRendering env w =
     (case m_vrSystem w of
        None \<Rightarrow> ([], Inl NullPointerDereference)
      | Some vr \<Rightarrow>
          (let eyeWidth = fst (GetRecommendedRenderTargetSize env);
               eyeHeight = snd (GetRecommendedRenderTargetSize env);
               eyeSize = QSize (sint eyeWidth) (sint eyeHeight)
           in for_each both (InitializeEyesRendering_eye env eyeSize) (True, w)))"

text \<open>\<open>getTrackedDeviceString\<close>: the empty string when the SDK reports length 0.\<close>

definition getTrackedDeviceString :: "env \<Rightarrow> nat \<Rightarrow> TrackedDeviceProperty \<Rightarrow> string" where
  "getTrackedDeviceString env i_device i_prop =
     (case GetStringTrackedDeviceProperty env i_device i_prop of
        None \<Rightarrow> []
      | Some buf \<Rightarrow> buf)"

text \<open>The hand a controller's role selects, as both loops over the devices compute it.\<close>

definition handIndex :: "ETrackedControllerRole \<Rightarrow> Eye" where
  "handIndex role = (if TrackedControllerRole_LeftHand = role then Left else Right)"

text \<open>\<open>WaitGetPoses(m_trackedDevicePose, k_unMaxTrackedDeviceCount, NULL, 0)\<close>.\<close>

definition WaitGetPoses_into ::
  "env \<Rightarrow> COpenVROpenGLWidget \<Rightarrow> COpenVROpenGLWidget action" where
  "WaitGetPoses_into env w =
     ([EvWaitGetPoses],
      Inr (w\<lparr> m_trackedDevicePose :=
              (\<lambda>i. if i < k_unMaxTrackedDeviceCount then WaitGetPoses env i
                    else m_trackedDevicePose w i) \<rparr>))"

definition InitializeControllers_device ::
  "env \<Rightarrow> nat \<Rightarrow> COpenVROpenGLWidget \<Rightarrow> COpenVROpenGLWidget action" where
  "InitializeControllers_device env i w =
     (case m_vrSystem w of
        None \<Rightarrow> ([], Inl NullPointerDereference)
      | Some vr \<Rightarrow>
          if GetTrackedDeviceClass env i \<noteq> TrackedDeviceClass_Controller then ([], Inr w)
          else
            (let controllerName = getTrackedDeviceString env i Prop_RenderModelName_String;
                 hand = handIndex (GetControllerRoleForTrackedDeviceIndex env i)
             in and_then (LoadModel env controllerName)
                  (\<lambda>p. ([], Inr (w\<lparr> m_controllers := (m_controllers w)
                           (hand := (m_controllers w hand)
                              \<lparr> m_pRenderModel := p, m_bShowController := True \<rparr>) \<rparr>)))))"

definition InitializeControllers ::
  "env \<Rightarrow> COpenVROpenGLWidget \<Rightarrow> (bool \<times> COpenVROpenGLWidget) action" where
  "InitializeControllers env w =
     and_then (WaitGetPoses_into env w)
       (\<lambda>w. and_then
          (for_each [0..<k_unMaxTrackedDeviceCount] (InitializeControllers_device env) w)
          (\<lambda>w. ([EvInitializeInputs], Inr (True, w))))"

text \<open>\<open>initializeGL\<close>, as compiled without \<open>_DEBUG\<close>.\<close>

definition initializeGL :: "env \<Rightarrow> COpenVROpenGLWidget \<Rightarrow> COpenVROpenGLWidget action" where
  "initializeGL env w =
     and_then ([EvInitializeOpenGLFunctions, EvGlEnable GL_DEPTH_TEST], Inr w)
       (\<lambda>w. and_then (InitializeVR env w)
          (\<lambda>r. if \<not> fst r then ([], Inr (snd r))
                else and_then (InitializeEyesRendering env (snd r))
                  (\<lambda>r. if \<not> fst r then ([], Inr (snd r))
                        else and_then (InitializeControllers env (snd r))
                          (\<lambda>r. ([EvInitializeRendering], Inr (snd r))))))"

section \<open>A frame\<close>

text \<open>The body of the loop of \<open>renderEye\<close> over the hands.\<close>

definition renderEye_hand ::
  "env \<Rightarrow> COpenVROpenGLWidget \<Rightarrow> QMatrix4x4 \<Rightarrow> Eye \<Rightarrow> unit \<Rightarrow> unit action" where
  "renderEye_hand env w matVP hand u =
     (if \<not> m_bShowController (m_controllers w hand) then ([], Inr ())
      else
        (case m_pRenderModel (m_controllers w hand) of
           None \<Rightarrow> ([], Inl NullPointerDereference)
         | Some m \<Rightarrow> Draw m (times env matVP (m_rmat4Pose (m_controllers w hand)))))"

definition renderEye :: "env \<Rightarrow> Eye \<Rightarrow> COpenVROpenGLWidget \<Rightarrow> unit action" where
  "renderEye env i_eye w =
     and_then ([EvGlClear, EvGlEnable GL_DEPTH_TEST], Inr ())
       (\<lambda>_. case m_eyeInfos w i_eye of
               None \<Rightarrow> ([], Inl NullPointerDereference)
             | Some e \<Rightarrow>
                 (let projection = GetProjectionMatrix_eye e;
                      view = times env (GetViewMatrix e) (m_hmdPose w);
                      matVP = times env projection view
                  in and_then (for_each both (renderEye_hand env w matVP) ())
                       (\<lambda>_. ([EvRender i_eye (times env view (GetCameraMatrix env w)) projection],
                              Inr ()))))"

text \<open>The bodies of the two loops of \<open>UpdatePositions\<close>.\<close>

definition UpdatePositions_eye ::
  "env \<Rightarrow> Eye \<Rightarrow> COpenVROpenGLWidget \<Rightarrow> COpenVROpenGLWidget action" where
  "UpdatePositions_eye env eye w =
     (case m_vrSystem w of
        None \<Rightarrow> ([], Inl NullPointerDereference)
      | Some vr \<Rightarrow>
          (case m_eyeInfos w eye of
             None \<Rightarrow> ([], Inl NullPointerDereference)
           | Some e \<Rightarrow>
               ([], Inr (w\<lparr> m_eyeInfos := (m_eyeInfos w)(eye := Some
                   (SetTransformMatrix
                      (inverted env (vrMatrixToQt_34 (GetEyeToHeadTransform env (to_EVREye eye))))
                      (vrMatrixToQt_44
                         (GetProjectionMatrix env (to_EVREye eye) NEAR_CLIP FAR_CLIP))
                      e)) \<rparr>))))"

definition UpdatePositions_device ::
  "env \<Rightarrow> nat \<Rightarrow> COpenVROpenGLWidget \<Rightarrow> COpenVROpenGLWidget action" where
  "UpdatePositions_device env nDevice w =
     (if bPoseIsValid (m_trackedDevicePose w nDevice) then
        (let w1 = w\<lparr> m_matrixDevicePose := (m_matrixDevicePose w)
                    (nDevice := vrMatrixToQt_34
                       (mDeviceToAbsoluteTracking (m_trackedDevicePose w nDevice))) \<rparr>
         in case m_vrSystem w1 of
              None \<Rightarrow> ([], Inl NullPointerDereference)
            | Some vr \<Rightarrow>
                (case GetTrackedDeviceClass env nDevice of
                   TrackedDeviceClass_Controller \<Rightarrow>
                     (let hand = handIndex (GetControllerRoleForTrackedDeviceIndex env nDevice)
                      in ([], Inr (w1\<lparr> m_controllers := (m_controllers w1)
                            (hand := (m_controllers w1 hand)
                               \<lparr> m_rmat4Pose := vrMatrixToQt_34
                                   (mDeviceToAbsoluteTracking
                                      (m_trackedDevicePose w1 nDevice)) \<rparr>) \<rparr>)))
                 | TrackedDeviceClass_HMD \<Rightarrow>
                     ([], Inr (w1\<lparr> m_hmdPose :=
                         inverted env (m_matrixDevicePose w1 k_unTrackedDeviceIndex_Hmd) \<rparr>))
                 | _ \<Rightarrow> ([], Inr w1)))
      else ([], Inr w))"

definition UpdatePositions :: "env \<Rightarrow> COpenVROpenGLWidget \<Rightarrow> COpenVROpenGLWidget action" where
  "UpdatePositions env w =
     and_then (for_each both (UpdatePositions_eye env) w)
       (\<lambda>w. and_then (WaitGetPoses_into env w)
          (for_each [0..<k_unMaxTrackedDeviceCount] (UpdatePositions_device env)))"

text \<open>The bodies of the two loops of \<open>paintGL\<close> over the eyes.\<close>

definition paintGL_eye :: "env \<Rightarrow> Eye \<Rightarrow> COpenVROpenGLWidget \<Rightarrow> COpenVROpenGLWidget action" where
  "paintGL_eye env eye w =
     (case m_eyeInfos w eye of
        None \<Rightarrow> ([], Inl NullPointerDereference)
      | Some e \<Rightarrow>
          and_then (SetSurface eye e)
            (\<lambda>_. and_then (renderEye env eye w)
               (\<lambda>_. and_then (UnsetSurface eye e) (\<lambda>_. ([], Inr w)))))"

definition paintGL_submit :: "env \<Rightarrow> Eye \<Rightarrow> COpenVROpenGLWidget \<Rightarrow> COpenVROpenGLWidget action" where
  "paintGL_submit env eye w =
     (case m_eyeInfos w eye of
        None \<Rightarrow> ([], Inl NullPointerDereference)
      | Some e \<Rightarrow>
          and_then (Texture e)
            (\<lambda>t. ([EvSubmit (to_EVREye eye) (Texture_t t TextureType_OpenGL ColorSpace_Gamma)],
                   Inr w)))"

text \<open>
  \<open>paintGL\<close>. The clear colour \<open>(0.15f, 0.15f, 0.18f, 1.0f)\<close> is written with the numbers
  these literals denote. The hooks \<open>UpdateInputs\<close>, \<open>UpdateRendering\<close> and \<open>Render\<close> belong to the
  subclass and appear as calls. The members are private: a hook can reach them only through
  the public camera methods, and what it calls there from inside a frame is not part of this
  model.
\<close>

definition paintGL :: "env \<Rightarrow> COpenVROpenGLWidget \<Rightarrow> COpenVROpenGLWidget action" where
  "paintGL env w =
     and_then
       (if m_vrSystem w \<noteq> None then
          and_then (UpdatePositions env w)
            (\<lambda>w. and_then
               ([EvUpdateInputs,
                 EvGlClearColor (5033165 / 33554432) (5033165 / 33554432) (3019899 / 16777216) 1,
                 EvUpdateRendering], Inr w)
               (for_each both (paintGL_eye env)))
        else ([], Inr w))
       (\<lambda>w. and_then
          ([EvGlClearColor 0 0 0 1, EvGlViewport 0 0 (widget_width env) (widget_height env),
            EvGlDisable GL_MULTISAMPLE], Inr w)
          (\<lambda>w. and_then (renderEye env Right w)
             (\<lambda>_. and_then
                (if m_vrSystem w \<noteq> None then for_each both (paintGL_submit env) w
                 else ([], Inr w))
                (\<lambda>w. ([EvUpdate], Inr w)))))"

section \<open>A concrete environment\<close>

text \<open>
  One toolkit for the examples. Single-precision addition is the exact sum rounded to nearest,
  ties to even (sums beyond the largest single-precision number are outside the model). The
  matrix product, the inverse of a translation, the rotation matrix of a quaternion and the
  quaternion of three Euler angles in degrees (pitch about x, yaw about y, roll about z) are
  written in exact arithmetic: they are the toolkit's results wherever single precision
  computes without rounding, which is so at every value an example below states (entries
  that are small multiples of a power of two, angles 0).
\<close>

definition round_half_even :: "real \<Rightarrow> int" where
  "round_half_even r =
     (let f = \<lfloor>r\<rfloor>
      in if r - of_int f < 1 / 2 then f
         else if 1 / 2 < r - of_int f then f + 1
         else if even f then f else f + 1)"

definition binary32 :: "real \<Rightarrow> real" where
  "binary32 r =
     (if r = 0 then 0
      else
        (let e = max \<lfloor>log 2 \<bar>r\<bar>\<rfloor> (- 126);
             ulp = (if 23 \<le> e then 2 ^ nat (e - 23) else 1 / 2 ^ nat (23 - e))
         in ulp * of_int (round_half_even (r / ulp))))"

definition demo_float_add :: "float \<Rightarrow> float \<Rightarrow> float" where
  "demo_float_add a b = binary32 (a + b)"

text \<open>
  \<open>QString::arg\<close> for the place markers \<open>%1\<close> to \<open>%9\<close>: every occurrence of the
  lowest-numbered marker of the text is replaced; a text without marker is returned as it is.
\<close>

fun occurs_marker :: "char \<Rightarrow> string \<Rightarrow> bool" where
  "occurs_marker d (c # c' # cs) = ((c = CHR ''%'' \<and> c' = d) \<or> occurs_marker d (c' # cs))"
| "occurs_marker d cs = False"

fun replace_marker :: "char \<Rightarrow> string \<Rightarrow> string \<Rightarrow> string" where
  "replace_marker d a (c # c' # cs) =
     (if c = CHR ''%'' \<and> c' = d then a @ replace_marker d a cs
      else c # replace_marker d a (c' # cs))"
| "replace_marker d a cs = cs"

definition demo_arg :: "string \<Rightarrow> string \<Rightarrow> string" where
  "demo_arg text a =
     (case filter (\<lambda>d. occurs_marker d text) ''123456789'' of
        [] \<Rightarrow> text
      | d # ds \<Rightarrow> replace_marker d a text)"

fun decimal :: "nat \<Rightarrow> string" where
  "decimal n =
     (if n < 10 then [char_of (48 + n)] else decimal (n div 10) @ [char_of (48 + n mod 10)])"

definition demo_arg_int :: "string \<Rightarrow> int \<Rightarrow> string" where
  "demo_arg_int text i =
     demo_arg text (if i < 0 then CHR ''-'' # decimal (nat (- i)) else decimal (nat i))"

fun dot :: "row4 \<Rightarrow> row4 \<Rightarrow> float" where
  "dot (Row4 a b c d) (Row4 e f g h) = a * e + b * f + c * g + d * h"

fun columns_Qt :: "QMatrix4x4 \<Rightarrow> row4 list" where
  "columns_Qt (QMatrix4x4 a0 a1 a2 a3 b0 b1 b2 b3 c0 c1 c2 c3 d0 d1 d2 d3) =
     [Row4 a0 b0 c0 d0, Row4 a1 b1 c1 d1, Row4 a2 b2 c2 d2, Row4 a3 b3 c3 d3]"

fun from_entries :: "float list \<Rightarrow> QMatrix4x4" where
  "from_entries [a0, a1, a2, a3, b0, b1, b2, b3, c0, c1, c2, c3, d0, d1, d2, d3] =
     QMatrix4x4 a0 a1 a2 a3 b0 b1 b2 b3 c0 c1 c2 c3 d0 d1 d2 d3"
| "from_entries es = identity_matrix"

definition demo_times :: "QMatrix4x4 \<Rightarrow> QMatrix4x4 \<Rightarrow> QMatrix4x4" where
  "demo_times a b = from_entries (concat (map (\<lambda>r. map (dot r) (columns_Qt b)) (rows_Qt a)))"

definition translation_matrix :: "float \<Rightarrow> float \<Rightarrow> float \<Rightarrow> QMatrix4x4" where
  "translation_matrix tx ty tz = QMatrix4x4 1 0 0 tx  0 1 0 ty  0 0 1 tz  0 0 0 1"

fun demo_inverted :: "QMatrix4x4 \<Rightarrow> QMatrix4x4" where
  "demo_inverted (QMatrix4x4 a0 a1 a2 a3 b0 b1 b2 b3 c0 c1 c2 c3 d0 d1 d2 d3) =
     QMatrix4x4 a0 a1 a2 (- a3) b0 b1 b2 (- b3) c0 c1 c2 (- c3) d0 d1 d2 d3"

fun demo_map_vector :: "QMatrix4x4 \<Rightarrow> QVector3D \<Rightarrow> QVector3D" where
  "demo_map_vector (QMatrix4x4 a0 a1 a2 a3 b0 b1 b2 b3 c0 c1 c2 c3 d0 d1 d2 d3) (QVector3D p q r) =
     QVector3D (a0 * p + a1 * q + a2 * r + a3) (b0 * p + b1 * q + b2 * r + b3)
       (c0 * p + c1 * q + c2 * r + c3)"

fun rotation_matrix :: "QQuaternion \<Rightarrow> QMatrix4x4" where
  "rotation_matrix (QQuaternion s a b c) =
     QMatrix4x4
       (1 - 2 * (b * b + c * c)) (2 * (a * b - c * s)) (2 * (a * c + b * s)) 0
       (2 * (a * b + c * s)) (1 - 2 * (a * a + c * c)) (2 * (b * c - a * s)) 0
       (2 * (a * c - b * s)) (2 * (b * c + a * s)) (1 - 2 * (a * a + b * b)) 0
       0 0 0 1"

definition demo_rotate :: "QMatrix4x4 \<Rightarrow> QQuaternion \<Rightarrow> QMatrix4x4" where
  "demo_rotate m q = demo_times m (rotation_matrix q)"

definition demo_translate :: "QMatrix4x4 \<Rightarrow> QVector3D \<Rightarrow> QMatrix4x4" where
  "demo_translate m v = demo_times m (translation_matrix (x v) (y v) (z v))"

definition demo_fromEulerAngles :: "float \<Rightarrow> float \<Rightarrow> float \<Rightarrow> QQuaternion" where
  "demo_fromEulerAngles pitch yaw roll =
     (let c1 = cos (yaw * pi / 360); s1 = sin (yaw * pi / 360);
          c2 = cos (roll * pi / 360); s2 = sin (roll * pi / 360);
          c3 = cos (pitch * pi / 360); s3 = sin (pitch * pi / 360)
      in QQuaternion (c1 * c2 * c3 + s1 * s2 * s3) (c1 * c2 * s3 + s1 * s2 * c3)
           (s1 * c2 * c3 - c1 * s2 * s3) (c1 * s2 * c3 - s1 * c2 * s3))"

text \<open>
  A headset at device 0, a left controller at device 1 and a right controller at device 2,
  all three tracked; every render model loads at the third poll.
\<close>

definition demo_pose :: "float \<Rightarrow> float \<Rightarrow> float \<Rightarrow> bool \<Rightarrow> TrackedDevicePose_t" where
  "demo_pose tx ty tz valid =
     \<lparr> mDeviceToAbsoluteTracking =
         HmdMatrix34_t (Row4 1 0 0 tx) (Row4 0 1 0 ty) (Row4 0 0 1 tz),
       bPoseIsValid = valid \<rparr>"

definition demo_env :: env where
  "demo_env =
     \<lparr> VR_IsRuntimeInstalled = True,
       VR_IsHmdPresent = True,
       VR_Init = (Some IVRSystem, VRInitError_None),
       VR_GetVRInitErrorAsEnglishDescription = (\<lambda>e. ''Unknown error''),
       VRCompositor = True,
       GetRecommendedRenderTargetSize = (1512, 1680),
       GetTrackedDeviceClass =
         (\<lambda>i. if i = 0 then TrackedDeviceClass_HMD
               else if i = 1 \<or> i = 2 then TrackedDeviceClass_Controller
               else TrackedDeviceClass_Invalid),
       GetControllerRoleForTrackedDeviceIndex =
         (\<lambda>i. if i = 1 then TrackedControllerRole_LeftHand
               else if i = 2 then TrackedControllerRole_RightHand
               else TrackedControllerRole_Invalid),
       GetStringTrackedDeviceProperty = (\<lambda>i p. Some ''vr_controller''),
       GetEyeToHeadTransform =
         (\<lambda>eye. HmdMatrix34_t
                  (Row4 1 0 0 (case eye of Eye_Left \<Rightarrow> - 1 / 32 | Eye_Right \<Rightarrow> 1 / 32))
                  (Row4 0 1 0 0) (Row4 0 0 1 0)),
       GetProjectionMatrix =
         (\<lambda>eye n f. HmdMatrix44_t (Row4 1 0 0 0) (Row4 0 1 0 0)
                      (Row4 0 0 (- 1) (- 1 / 4)) (Row4 0 0 (- 1) 0)),
       WaitGetPoses =
         (\<lambda>i. if i = 0 then demo_pose 0 2 0 True
               else if i = 1 then demo_pose (- 1) 1 0 True
               else if i = 2 then demo_pose 1 1 0 True
               else demo_pose 0 0 0 False),
       LoadRenderModel_Async =
         (\<lambda>name k. (if k < 2 then VRRenderModelError_Loading else VRRenderModelError_None,
                     \<lparr> diffuseTextureId = 7, unTriangleCount = 100 \<rparr>)),
       LoadTexture_Async =
         (\<lambda>tid k. (if k < 2 then VRRenderModelError_Loading else VRRenderModelError_None,
                    \<lparr> unWidth = 256, unHeight = 256 \<rparr>)),
       GetRenderModelErrorNameFromEnum = (\<lambda>e. ''VRRenderModelError_InvalidModel''),
       QString_arg = demo_arg,
       QString_arg_int = demo_arg_int,
       addShaderFromSourceCode = (\<lambda>t. True),
       link = True,
       program_log = [],
       default_format = \<lparr> attachment = NoAttachment, internalTextureFormat = GL_RGBA8, samples = 0 \<rparr>,
       framebuffers =
         (\<lambda>eye. case eye of Left \<Rightarrow> ((True, 1), (True, 2)) | Right \<Rightarrow> ((True, 3), (True, 4))),
       windowTitle = ''OpenVR'',
       widget_width = 1024,
       widget_height = 720,
       inverted = demo_inverted,
       times = demo_times,
       map_vector = demo_map_vector,
       rotate = demo_rotate,
       translate = demo_translate,
       fromEulerAngles = demo_fromEulerAngles,
       float_add = demo_float_add \<rparr>"

text \<open>
  The same machine with no VR runtime installed; with a \<open>VR_Init\<close> that reports no error and
  returns no interface; with render models that fail to load (the SDK answers error 301,
  \<open>VRRenderModelError_InvalidModel\<close>, at the first poll).
\<close>

definition no_runtime_env :: env where
  "no_runtime_env = demo_env\<lparr> VR_IsRuntimeInstalled := False \<rparr>"

definition null_system_env :: env where
  "null_system_env = demo_env\<lparr> VR_Init := (None, VRInitError_None) \<rparr>"

definition missing_model_env :: env where
  "missing_model_env = demo_env
     \<lparr> LoadRenderModel_Async :=
         (\<lambda>name k. (VRRenderModelError_Other 301,
                     \<lparr> diffuseTextureId = 0, unTriangleCount = 0 \<rparr>)) \<rparr>"

text \<open>A freshly constructed widget, its pose array holding untracked poses.\<close>

definition fresh_widget :: COpenVROpenGLWidget where
  "fresh_widget = COpenVROpenGLWidget_ctor (\<lambda>i. demo_pose 0 0 0 False)"

section \<open>Reading a trace and naming devices\<close>

text \<open>The critical dialogs of a trace, and the calls that set up eyes, controllers or scene.\<close>

fun is_dialog :: "event \<Rightarrow> bool" where
  "is_dialog (EvMessageBoxCritical title msg) = True"
| "is_dialog ev = False"

fun is_initialisation :: "event \<Rightarrow> bool" where
  "is_initialisation (EvNewFramebuffer w h fmt) = True"
| "is_initialisation EvWaitGetPoses = True"
| "is_initialisation (EvAddShaderFromSourceCode t) = True"
| "is_initialisation EvLink = True"
| "is_initialisation (EvInitModel name) = True"
| "is_initialisation EvInitializeInputs = True"
| "is_initialisation EvInitializeRendering = True"
| "is_initialisation ev = False"

text \<open>The four failure cases of \<open>InitializeVR\<close>, as the specification lists them.\<close>

definition InitializeVR_fails :: "env \<Rightarrow> bool" where
  "InitializeVR_fails env =
     (\<not> VR_IsRuntimeInstalled env \<or> \<not> VR_IsHmdPresent env
      \<or> snd (VR_Init env) \<noteq> VRInitError_None \<or> \<not> VRCompositor env)"

text \<open>The framebuffers a trace creates: width, height and format, in order.\<close>

fun new_framebuffer_args :: "event \<Rightarrow> (int \<times> int \<times> QOpenGLFramebufferObjectFormat) list" where
  "new_framebuffer_args (EvNewFramebuffer w h fmt) = [(w, h, fmt)]"
| "new_framebuffer_args ev = []"

definition created_framebuffers ::
  "event list \<Rightarrow> (int \<times> int \<times> QOpenGLFramebufferObjectFormat) list" where
  "created_framebuffers t = concat (map new_framebuffer_args t)"

text \<open>
  The slot the specification gives a controller: Left if and only if its role is
  \<open>LeftHand\<close>, Right in every other case.
\<close>

definition slot_of_role :: "ETrackedControllerRole \<Rightarrow> Eye" where
  "slot_of_role role = (case role of TrackedControllerRole_LeftHand \<Rightarrow> Left | _ \<Rightarrow> Right)"

text \<open>
  The devices below \<open>n\<close> of class Controller that the specification assigns to a hand, in
  the order of their indices; those among them with a valid pose; the devices of class HMD
  with a valid pose.
\<close>

definition controllers_of_hand :: "env \<Rightarrow> nat \<Rightarrow> Eye \<Rightarrow> nat list" where
  "controllers_of_hand env n hand =
     filter (\<lambda>i. GetTrackedDeviceClass env i = TrackedDeviceClass_Controller
                 \<and> slot_of_role (GetControllerRoleForTrackedDeviceIndex env i) = hand) [0..<n]"

definition tracked_controllers_of_hand ::
  "(nat \<Rightarrow> TrackedDevicePose_t) \<Rightarrow> env \<Rightarrow> nat \<Rightarrow> Eye \<Rightarrow> nat list" where
  "tracked_controllers_of_hand poses env n hand =
     filter (\<lambda>i. bPoseIsValid (poses i)) (controllers_of_hand env n hand)"

definition tracked_headsets :: "(nat \<Rightarrow> TrackedDevicePose_t) \<Rightarrow> env \<Rightarrow> nat \<Rightarrow> nat list" where
  "tracked_headsets poses env n =
     filter (\<lambda>i. bPoseIsValid (poses i) \<and> GetTrackedDeviceClass env i = TrackedDeviceClass_HMD)
       [0..<n]"

definition pose_matrix :: "(nat \<Rightarrow> TrackedDevicePose_t) \<Rightarrow> nat \<Rightarrow> QMatrix4x4" where
  "pose_matrix poses i = vrMatrixToQt_34 (mDeviceToAbsoluteTracking (poses i))"

text \<open>The pointer \<open>LoadModel\<close> returns for the render model of device \<open>i\<close>.\<close>

definition loaded :: "env \<Rightarrow> nat \<Rightarrow> CRenderModel option" where
  "loaded env i =
     (case snd (LoadModel env (getTrackedDeviceString env i Prop_RenderModelName_String)) of
        Inl a \<Rightarrow> None
      | Inr p \<Rightarrow> p)"

text \<open>
  A runtime that recommends a render target 2147483648 pixels wide, and a widget whose VR
  system is up.
\<close>

definition wide_env :: env where
  "wide_env = demo_env\<lparr> GetRecommendedRenderTargetSize := (0x80000000, 1680),
                         framebuffers := (\<lambda>eye. ((False, 0), (False, 0))) \<rparr>"

definition active_widget :: COpenVROpenGLWidget where
  "active_widget = fresh_widget\<lparr> m_vrSystem := Some IVRSystem \<rparr>"

text \<open>
  The draw calls of the controllers for a given matrix \<open>matVP\<close>: one for each shown
  controller, in the order of the hands, with \<open>matVP\<close> times the controller's pose. The
  list ends before the first shown controller that has no render model.
  \<open>models_present\<close>: every shown controller has one.
\<close>

fun shown_draws :: "env \<Rightarrow> COpenVROpenGLWidget \<Rightarrow> QMatrix4x4 \<Rightarrow> Eye list \<Rightarrow> event list" where
  "shown_draws env v matVP [] = []"
| "shown_draws env v matVP (hand # hands) =
     (if \<not> m_bShowController (m_controllers v hand) then shown_draws env v matVP hands
      else
        (case m_pRenderModel (m_controllers v hand) of
           None \<Rightarrow> []
         | Some m \<Rightarrow>
             EvDraw m (times env matVP (m_rmat4Pose (m_controllers v hand)))
               # shown_draws env v matVP hands))"

definition models_present :: "COpenVROpenGLWidget \<Rightarrow> bool" where
  "models_present v =
     ((m_bShowController (m_controllers v Left) \<longrightarrow> m_pRenderModel (m_controllers v Left) \<noteq> None)
      \<and> (m_bShowController (m_controllers v Right) \<longrightarrow>
           m_pRenderModel (m_controllers v Right) \<noteq> None))"

text \<open>
  A widget after a successful \<open>initializeGL\<close> in \<open>demo_env\<close>: before any controller is
  loaded, and with both controllers loaded and shown. The same machine with the headset's
  pose not valid.
\<close>

definition ready_widget :: COpenVROpenGLWidget where
  "ready_widget = active_widget
     \<lparr> m_eyeInfos := (\<lambda>eye. Some (snd (CEyeInfos_ctor demo_env (framebuffers demo_env eye)
                                         (QSize 1512 1680)))) \<rparr>"

definition playing_widget :: COpenVROpenGLWidget where
  "playing_widget = ready_widget
     \<lparr> m_controllers := (\<lambda>hand.
          \<lparr> m_rmat4Pose = identity_matrix,
            m_pRenderModel = Some \<lparr> m_sModelName = ''vr_controller'', m_unVertexCount = 300 \<rparr>,
            m_bShowController = True \<rparr>) \<rparr>"

definition untracked_env :: env where
  "untracked_env = demo_env
     \<lparr> WaitGetPoses := (\<lambda>i. if i = 0 then demo_pose 0 2 0 False else WaitGetPoses demo_env i) \<rparr>"

section \<open>The order of a frame\<close>

text \<open>
  What a trace does to the eyes' buffers, forgetting the data: a framebuffer bound, an eye
  rendered (the \<open>Render\<close> hook that ends \<open>renderEye\<close>), a framebuffer released, a framebuffer
  resolved by the blit, a texture submitted. \<open>frame_order\<close> is the order the specification
  gives for a frame with the VR system active.
\<close>

datatype step = Bound Eye | Rendered Eye | Released Eye | Resolved Eye | Submitted EVREye

fun step_of :: "event \<Rightarrow> step list" where
  "step_of (EvBind eye fb) = [Bound eye]"
| "step_of (EvRender eye view projection) = [Rendered eye]"
| "step_of (EvRelease eye fb) = [Released eye]"
| "step_of (EvBlit eye target targetRect source sourceRect) = [Resolved eye]"
| "step_of (EvSubmit eye t) = [Submitted eye]"
| "step_of ev = []"

definition eye_steps :: "event list \<Rightarrow> step list" where
  "eye_steps t = concat (map step_of t)"

definition frame_order :: "step list" where
  "frame_order =
     [Bound Left, Rendered Left, Released Left, Resolved Left,
      Bound Right, Rendered Right, Released Right, Resolved Right,
      Rendered Right,
      Submitted Eye_Left, Submitted Eye_Right]"

text \<open>
  A run follows a list of steps when what it did so far is a prefix of the list, and the
  whole list once it has returned.
\<close>

definition follows :: "'a action \<Rightarrow> step list \<Rightarrow> bool" where
  "follows m xs =
     (prefix (eye_steps (fst m)) xs \<and> (\<forall>a. snd m = Inr a \<longrightarrow> eye_steps (fst m) = xs))"

section \<open>Theorems\<close>

subsection \<open>Sequencing\<close>

lemma and_then_Inr [simp]: "and_then (t, Inr a) f = (t @ fst (f a), snd (f a))"
  by (simp add: and_then_def split: prod.splits)

lemma and_then_Inl [simp]: "and_then (t, Inl e) f = (t, Inl e)"
  by (simp add: and_then_def)

lemma for_each_append:
  "for_each (xs @ ys) body s = and_then (for_each xs body s) (for_each ys body)"
proof (induction xs arbitrary: s)
  case Nil
  show ?case by simp
next
  case (Cons i xs)
  obtain t r where b: "body i s = (t, r)" by (cases "body i s")
  show ?case
  proof (cases r)
    case (Inl e)
    with b show ?thesis by simp
  next
    case (Inr s')
    with b Cons.IH [of s'] show ?thesis
      by (cases "for_each xs body s'"; cases "snd (for_each xs body s')")
        (auto simp: and_then_def split: prod.splits sum.splits)
  qed
qed

lemma handIndex_slot: "handIndex role = slot_of_role role"
  by (cases role) (simp_all add: handIndex_def slot_of_role_def)

subsection \<open>Matrix conversion\<close>

text \<open>
  C2. \<open>vrMatrixToQt\<close> on a 3x4 matrix gives the 4x4 matrix whose first three rows are the
  input's rows in order and whose fourth row is (0, 0, 0, 1); on a 4x4 matrix it copies
  all sixteen entries in row-major order; so the two overloads agree on a 4x4 matrix whose
  last row is (0, 0, 0, 1), the 3x4 overload being given its top three rows.
\<close>

theorem C2_vrMatrixToQt:
  "rows_Qt (vrMatrixToQt_34 m) = rows_34 m @ [Row4 0 0 0 1]
   \<and> rows_Qt (vrMatrixToQt_44 n) = rows_44 n
   \<and> concat (map entries (rows_Qt (vrMatrixToQt_44 n))) = concat (map entries (rows_44 n))
   \<and> (last_row n = Row4 0 0 0 1 \<longrightarrow> vrMatrixToQt_44 n = vrMatrixToQt_34 (top_rows n))"
proof -
  obtain r0 r1 r2 where m: "m = HmdMatrix34_t r0 r1 r2"
    by (cases m) blast
  obtain s0 s1 s2 s3 where n: "n = HmdMatrix44_t s0 s1 s2 s3"
    by (cases n) blast
  have a: "rows_Qt (vrMatrixToQt_34 m) = rows_34 m @ [Row4 0 0 0 1]"
    unfolding m by (cases r0; cases r1; cases r2) simp
  have b: "rows_Qt (vrMatrixToQt_44 n) = rows_44 n"
    unfolding n by (cases s0; cases s1; cases s2; cases s3) simp
  have c: "last_row n = Row4 0 0 0 1 \<longrightarrow> vrMatrixToQt_44 n = vrMatrixToQt_34 (top_rows n)"
    unfolding n by (cases s0; cases s1; cases s2; cases s3) simp
  from a b c show ?thesis by simp
qed

theorem C2_vrMatrixToQt_witness:
  "rows_Qt (vrMatrixToQt_34 (HmdMatrix34_t (Row4 1 2 3 4) (Row4 5 6 7 8) (Row4 9 10 11 12)))
     = [Row4 1 2 3 4, Row4 5 6 7 8, Row4 9 10 11 12, Row4 0 0 0 1]
   \<and> vrMatrixToQt_44 (HmdMatrix44_t (Row4 1 2 3 4) (Row4 5 6 7 8) (Row4 9 10 11 12) (Row4 0 0 0 1))
     = vrMatrixToQt_34 (HmdMatrix34_t (Row4 1 2 3 4) (Row4 5 6 7 8) (Row4 9 10 11 12))"
  using C2_vrMatrixToQt [of "HmdMatrix34_t (Row4 1 2 3 4) (Row4 5 6 7 8) (Row4 9 10 11 12)"
      "HmdMatrix44_t (Row4 1 2 3 4) (Row4 5 6 7 8) (Row4 9 10 11 12) (Row4 0 0 0 1)"]
  by simp

subsection \<open>The camera\<close>

lemma camera_run_append:
  "camera_run env (cs @ ds) w = camera_run env ds (camera_run env cs w)"
  by (induction cs arbitrary: w) simp_all



text \<open>
  C9. After any sequence of camera calls, \<open>ResetEyesPositions\<close> makes \<open>GetTranslations\<close>
  return (0, 0, 0) and \<open>ResetEyesRotations\<close> makes \<open>GetRotations\<close> return (0, 180, 0); a
  freshly constructed widget returns the same two values, so the two resets together restore
  the initial camera; the rotation after a reset is (0, 180, 0), not (0, 0, 0).
\<close>

theorem C9_reset_restores_initial_camera:
  "GetTranslations (ResetEyesPositions (camera_run env cs (COpenVROpenGLWidget_ctor u)))
     = QVector3D 0 0 0
   \<and> GetRotations (ResetEyesRotations (camera_run env cs (COpenVROpenGLWidget_ctor u)))
     = QVector3D 0 180 0
   \<and> GetTranslations (COpenVROpenGLWidget_ctor u) = QVector3D 0 0 0
   \<and> GetRotations (COpenVROpenGLWidget_ctor u) = QVector3D 0 180 0
   \<and> GetRotations (ResetEyesRotations (camera_run env cs (COpenVROpenGLWidget_ctor u)))
     \<noteq> QVector3D 0 0 0
   \<and> GetTranslations
        (ResetEyesRotations (ResetEyesPositions (camera_run env cs (COpenVROpenGLWidget_ctor u))))
     = GetTranslations (COpenVROpenGLWidget_ctor u)
   \<and> GetRotations
        (ResetEyesRotations (ResetEyesPositions (camera_run env cs (COpenVROpenGLWidget_ctor u))))
     = GetRotations (COpenVROpenGLWidget_ctor u)"
  by (simp add: GetTranslations_def GetRotations_def ResetEyesPositions_def
      ResetEyesRotations_def COpenVROpenGLWidget_ctor_def INITIAL_TRANSLATION_def
      INITIAL_ROTATION_def)

theorem C9_reset_restores_initial_camera_witness:
  "GetTranslations (ResetEyesPositions
      (camera_run demo_env [CallRotateEyes 10 20 30, CallTranslateEyes 1 2 3] fresh_widget))
     = GetTranslations fresh_widget
   \<and> GetRotations (ResetEyesRotations
      (camera_run demo_env [CallRotateEyes 10 20 30, CallTranslateEyes 1 2 3] fresh_widget))
     = QVector3D 0 180 0"
  using C9_reset_restores_initial_camera
    [of demo_env "[CallRotateEyes 10 20 30, CallTranslateEyes 1 2 3]"
      "\<lambda>i. demo_pose 0 0 0 False"]
  by (simp add: fresh_widget_def)





subsection \<open>Initialisation of the VR system\<close>

lemma InitializeVR_failure:
  assumes "m_vrSystem w = None" and "InitializeVR_fails env"
  shows "snd (InitializeVR env w) = Inr (False, w)"
    and "length (filter is_dialog (fst (InitializeVR env w))) = 1"
    and "filter is_initialisation (fst (InitializeVR env w)) = []"
  using assms
  by (auto simp add: InitializeVR_def InitializeVR_fails_def Let_def)

lemma InitializeVR_success:
  assumes "\<not> InitializeVR_fails env"
  shows "InitializeVR env w = ([EvVR_Init], Inr (True, w\<lparr> m_vrSystem := fst (VR_Init env) \<rparr>))"
  using assms
  by (simp add: InitializeVR_def InitializeVR_fails_def Let_def)

lemma InitializeVR_shutdown:
  "EvVR_Shutdown \<in> set (fst (InitializeVR env w)) \<longleftrightarrow>
     (VR_IsRuntimeInstalled env \<and> VR_IsHmdPresent env
      \<and> snd (VR_Init env) = VRInitError_None \<and> \<not> VRCompositor env)"
  by (simp add: InitializeVR_def Let_def)

lemma initializeGL_failure:
  assumes "m_vrSystem w = None" and "InitializeVR_fails env"
  shows "initializeGL env w =
     ([EvInitializeOpenGLFunctions, EvGlEnable GL_DEPTH_TEST] @ fst (InitializeVR env w), Inr w)"
proof -
  obtain t where t: "InitializeVR env w = (t, Inr (False, w))"
    using InitializeVR_failure(1) [OF assms] by (cases "InitializeVR env w") simp
  show ?thesis
    by (simp add: initializeGL_def t)
qed

text \<open>
  C6, amended. Called on a widget whose \<open>m_vrSystem\<close> is null, \<open>InitializeVR\<close> returns false,
  leaves \<open>m_vrSystem\<close> null and shows one critical dialog in exactly the four failure cases
  (no runtime, no headset, \<open>VR_Init\<close> reporting an error, no compositor), shutting the
  runtime down in the last of them only; otherwise it calls \<open>VR_Init\<close> and nothing else, and
  returns true with \<open>m_vrSystem\<close> set to the pointer \<open>VR_Init\<close> returned, which the code does
  not test. When it returns false, \<open>initializeGL\<close> does nothing after it: no eye, controller
  or scene initialisation.
\<close>

theorem C6_InitializeVR_failure_cases:
  assumes "m_vrSystem w = None"
  shows "(InitializeVR_fails env \<longrightarrow>
            snd (InitializeVR env w) = Inr (False, w)
          \<and> length (filter is_dialog (fst (InitializeVR env w))) = 1
          \<and> initializeGL env w =
              ([EvInitializeOpenGLFunctions, EvGlEnable GL_DEPTH_TEST]
                 @ fst (InitializeVR env w), Inr w)
          \<and> filter is_initialisation (fst (initializeGL env w)) = [])
       \<and> (\<not> InitializeVR_fails env \<longrightarrow>
            InitializeVR env w = ([EvVR_Init], Inr (True, w\<lparr> m_vrSystem := fst (VR_Init env) \<rparr>)))
       \<and> (EvVR_Shutdown \<in> set (fst (InitializeVR env w)) \<longleftrightarrow>
            (VR_IsRuntimeInstalled env \<and> VR_IsHmdPresent env
             \<and> snd (VR_Init env) = VRInitError_None \<and> \<not> VRCompositor env))"
proof -
  have a: "InitializeVR_fails env \<longrightarrow>
            snd (InitializeVR env w) = Inr (False, w)
          \<and> length (filter is_dialog (fst (InitializeVR env w))) = 1
          \<and> initializeGL env w =
              ([EvInitializeOpenGLFunctions, EvGlEnable GL_DEPTH_TEST]
                 @ fst (InitializeVR env w), Inr w)
          \<and> filter is_initialisation (fst (initializeGL env w)) = []"
    using InitializeVR_failure [OF assms] initializeGL_failure [OF assms] by simp
  have b: "\<not> InitializeVR_fails env \<longrightarrow>
            InitializeVR env w = ([EvVR_Init], Inr (True, w\<lparr> m_vrSystem := fst (VR_Init env) \<rparr>))"
    using InitializeVR_success by blast
  from a b InitializeVR_shutdown [of env w] show ?thesis by blast
qed

text \<open>
  The success case with a null pointer: \<open>VR_Init\<close> answers \<open>VRInitError_None\<close> together with
  a null \<open>IVRSystem\<close> pointer, and \<open>InitializeVR\<close> returns true with \<open>m_vrSystem\<close> null.
\<close>

theorem C6_null_system_counterexample:
  "\<not> InitializeVR_fails null_system_env
   \<and> m_vrSystem fresh_widget = None
   \<and> InitializeVR null_system_env fresh_widget = ([EvVR_Init], Inr (True, fresh_widget))"
  by (simp add: InitializeVR_fails_def InitializeVR_def null_system_env_def demo_env_def
      fresh_widget_def COpenVROpenGLWidget_ctor_def Let_def)

theorem C6_InitializeVR_failure_cases_witness:
  "m_vrSystem fresh_widget = None
   \<and> InitializeVR_fails no_runtime_env
   \<and> snd (InitializeVR no_runtime_env fresh_widget) = Inr (False, fresh_widget)
   \<and> snd (initializeGL no_runtime_env fresh_widget) = Inr fresh_widget
   \<and> \<not> InitializeVR_fails demo_env
   \<and> InitializeVR demo_env fresh_widget = ([EvVR_Init], Inr (True, active_widget))"
proof -
  have n: "m_vrSystem fresh_widget = None"
    by (simp add: fresh_widget_def COpenVROpenGLWidget_ctor_def)
  have f: "InitializeVR_fails no_runtime_env"
    by (simp add: InitializeVR_fails_def no_runtime_env_def)
  have g: "\<not> InitializeVR_fails demo_env"
    by (simp add: InitializeVR_fails_def demo_env_def)
  have v: "fst (VR_Init demo_env) = Some IVRSystem"
    by (simp add: demo_env_def)
  from n f g v C6_InitializeVR_failure_cases [OF n, of no_runtime_env]
    C6_InitializeVR_failure_cases [OF n, of demo_env]
  show ?thesis by (simp add: active_widget_def)
qed

subsection \<open>The eyes' framebuffers\<close>

lemma IsValid_iff:
  "IsValid e \<longleftrightarrow>
     (\<exists>fb rb. m_frameBuffer e = Some fb \<and> m_resolveBuffer e = Some rb \<and> isValid fb \<and> isValid rb)"
  by (auto simp add: IsValid_def split: option.splits)

lemma InitializeEyesRendering_result:
  assumes "m_vrSystem w \<noteq> None"
    and "eyeSize = QSize (sint (fst (GetRecommendedRenderTargetSize env)))
                (sint (snd (GetRecommendedRenderTargetSize env)))"
  shows "InitializeEyesRendering env w =
     (fst (CEyeInfos_ctor env (framebuffers env Left) eyeSize)
      @ fst (CEyeInfos_ctor env (framebuffers env Right) eyeSize),
      Inr (IsValid (snd (CEyeInfos_ctor env (framebuffers env Left) eyeSize))
           \<and> IsValid (snd (CEyeInfos_ctor env (framebuffers env Right) eyeSize)),
           w\<lparr> m_eyeInfos := (m_eyeInfos w)
               (Left := Some (snd (CEyeInfos_ctor env (framebuffers env Left) eyeSize)),
                Right := Some (snd (CEyeInfos_ctor env (framebuffers env Right) eyeSize))) \<rparr>))"
  using assms
  by (auto simp add: InitializeEyesRendering_def InitializeEyesRendering_eye_def both_def Let_def
      split: prod.splits)

text \<open>
  C4, amended. With the VR system up, \<open>InitializeEyesRendering\<close> creates exactly two
  framebuffers for each of the two eyes, each at the recommended render-target size read as
  signed 32-bit integers (which is the recommended size when both dimensions are below
  2^31): a render framebuffer with a depth attachment, RGBA8 internal format and 4 samples,
  kept in \<open>m_frameBuffer\<close>, then a resolve framebuffer with RGBA8 internal format and 0
  samples, kept in \<open>m_resolveBuffer\<close>. \<open>IsValid\<close> is true if
  and only if both framebuffers exist and are valid, and \<open>InitializeEyesRendering\<close> returns
  true if and only if both eyes' \<open>CEyeInfos\<close> are valid.
\<close>

theorem C4_eye_framebuffers:
  assumes "m_vrSystem w \<noteq> None"
  shows "\<exists>t r w' eL eR buff resolve.
       InitializeEyesRendering env w = (t, Inr (r, w'))
     \<and> m_eyeInfos w' Left = Some eL \<and> m_eyeInfos w' Right = Some eR
     \<and> created_framebuffers t =
         [(sint (fst (GetRecommendedRenderTargetSize env)),
           sint (snd (GetRecommendedRenderTargetSize env)), buff),
          (sint (fst (GetRecommendedRenderTargetSize env)),
           sint (snd (GetRecommendedRenderTargetSize env)), resolve),
          (sint (fst (GetRecommendedRenderTargetSize env)),
           sint (snd (GetRecommendedRenderTargetSize env)), buff),
          (sint (fst (GetRecommendedRenderTargetSize env)),
           sint (snd (GetRecommendedRenderTargetSize env)), resolve)]
     \<and> attachment buff = Depth \<and> internalTextureFormat buff = GL_RGBA8 \<and> samples buff = 4
     \<and> internalTextureFormat resolve = GL_RGBA8 \<and> samples resolve = 0
     \<and> (uint (fst (GetRecommendedRenderTargetSize env)) < 2 ^ 31 \<longrightarrow>
          sint (fst (GetRecommendedRenderTargetSize env))
            = uint (fst (GetRecommendedRenderTargetSize env)))
     \<and> (uint (snd (GetRecommendedRenderTargetSize env)) < 2 ^ 31 \<longrightarrow>
          sint (snd (GetRecommendedRenderTargetSize env))
            = uint (snd (GetRecommendedRenderTargetSize env)))
     \<and> (r \<longleftrightarrow> IsValid eL \<and> IsValid eR)
     \<and> (IsValid eL \<longleftrightarrow>
          (\<exists>fb rb. m_frameBuffer eL = Some fb \<and> m_resolveBuffer eL = Some rb
             \<and> isValid fb \<and> isValid rb))
     \<and> (IsValid eR \<longleftrightarrow>
          (\<exists>fb rb. m_frameBuffer eR = Some fb \<and> m_resolveBuffer eR = Some rb
             \<and> isValid fb \<and> isValid rb))
     \<and> (IsValid eL \<longleftrightarrow> fst (fst (framebuffers env Left)) \<and> fst (snd (framebuffers env Left)))
     \<and> (IsValid eR \<longleftrightarrow> fst (fst (framebuffers env Right)) \<and> fst (snd (framebuffers env Right)))
     \<and> map_option fbo_format (m_frameBuffer eL) = Some buff
     \<and> map_option fbo_format (m_resolveBuffer eL) = Some resolve
     \<and> map_option fbo_format (m_frameBuffer eR) = Some buff
     \<and> map_option fbo_format (m_resolveBuffer eR) = Some resolve"
proof -
  define eyeSize where "eyeSize = QSize (sint (fst (GetRecommendedRenderTargetSize env)))
                (sint (snd (GetRecommendedRenderTargetSize env)))"
  have small: "sint a = uint a" if "uint a < 2 ^ 31" for a :: "32 word"
  proof -
    have "- (2 ^ 31) \<le> uint a"
      by (rule order_trans [of _ 0]) simp_all
    with that have "signed_take_bit 31 (uint a) = uint a"
      by (intro signed_take_bit_int_eq_self)
    then show ?thesis by (simp add: sint_uint)
  qed
  note r = InitializeEyesRendering_result [OF assms eyeSize_def]
  show ?thesis
    unfolding r
    apply (intro exI conjI)
                     apply (rule refl)
                    apply simp
                   apply simp
                  apply (simp add: created_framebuffers_def CEyeInfos_ctor_def eyeSize_def Let_def)
                 apply simp
                apply simp
               apply simp
              apply simp
             apply simp
            apply (simp add: small)
           apply (simp add: small)
          apply simp
         apply (rule IsValid_iff)
        apply (rule IsValid_iff)
           apply (simp add: IsValid_def CEyeInfos_ctor_def new_QOpenGLFramebufferObject_def Let_def)
          apply (simp add: IsValid_def CEyeInfos_ctor_def new_QOpenGLFramebufferObject_def Let_def)
         apply (simp add: CEyeInfos_ctor_def new_QOpenGLFramebufferObject_def Let_def)
        apply (simp add: CEyeInfos_ctor_def new_QOpenGLFramebufferObject_def Let_def)
       apply (simp add: CEyeInfos_ctor_def new_QOpenGLFramebufferObject_def Let_def)
      apply (simp add: CEyeInfos_ctor_def new_QOpenGLFramebufferObject_def Let_def)
    done
qed

theorem C4_eye_framebuffers_witness:
  "m_vrSystem active_widget \<noteq> None
   \<and> (\<exists>t w'. InitializeEyesRendering demo_env active_widget = (t, Inr (True, w'))
        \<and> map fst (created_framebuffers t) = [1512, 1512, 1512, 1512]
        \<and> map (fst \<circ> snd) (created_framebuffers t) = [1680, 1680, 1680, 1680])"
proof -
  have vr: "m_vrSystem active_widget \<noteq> None"
    by (simp add: active_widget_def)
  have sz: "GetRecommendedRenderTargetSize demo_env = (1512, 1680)"
    and fb: "framebuffers demo_env Left = ((True, 1), (True, 2))"
      "framebuffers demo_env Right = ((True, 3), (True, 4))"
    by (simp_all add: demo_env_def)
  from C4_eye_framebuffers [OF vr, of demo_env] vr show ?thesis
    unfolding sz fb by auto
qed

theorem C4_wide_target_counterexample:
  "map fst (created_framebuffers (fst (InitializeEyesRendering wide_env active_widget)))
     = [- 2147483648, - 2147483648, - 2147483648, - 2147483648]
   \<and> uint (fst (GetRecommendedRenderTargetSize wide_env)) = 2147483648"
  by (simp add: InitializeEyesRendering_def InitializeEyesRendering_eye_def both_def
      CEyeInfos_ctor_def created_framebuffers_def wide_env_def active_widget_def Let_def)

subsection \<open>The loops of \<open>UpdatePositions\<close>\<close>

lemma UpdatePositions_device_fields:
  assumes "m_vrSystem v \<noteq> None"
  shows "\<exists>v'. UpdatePositions_device env n v = ([], Inr v')
     \<and> m_vrSystem v' = m_vrSystem v
     \<and> m_trackedDevicePose v' = m_trackedDevicePose v
     \<and> m_eyeInfos v' = m_eyeInfos v
     \<and> m_cameraTranslation v' = m_cameraTranslation v
     \<and> m_cameraRotations v' = m_cameraRotations v
     \<and> m_matrixDevicePose v' =
         (if bPoseIsValid (m_trackedDevicePose v n)
          then (m_matrixDevicePose v)(n := pose_matrix (m_trackedDevicePose v) n)
          else m_matrixDevicePose v)
     \<and> m_hmdPose v' =
         (if bPoseIsValid (m_trackedDevicePose v n)
             \<and> GetTrackedDeviceClass env n = TrackedDeviceClass_HMD
          then inverted env (((m_matrixDevicePose v)(n := pose_matrix (m_trackedDevicePose v) n)) 0)
          else m_hmdPose v)
     \<and> m_controllers v' =
         (if bPoseIsValid (m_trackedDevicePose v n)
             \<and> GetTrackedDeviceClass env n = TrackedDeviceClass_Controller
          then (m_controllers v)
             (slot_of_role (GetControllerRoleForTrackedDeviceIndex env n) :=
                (m_controllers v (slot_of_role (GetControllerRoleForTrackedDeviceIndex env n)))
                  \<lparr> m_rmat4Pose := pose_matrix (m_trackedDevicePose v) n \<rparr>)
          else m_controllers v)"
proof -
  obtain vr where vr: "m_vrSystem v = Some vr" using assms by auto
  show ?thesis
  proof (cases "bPoseIsValid (m_trackedDevicePose v n)")
    case False
    then show ?thesis by (simp add: UpdatePositions_device_def)
  next
    case True
    with vr show ?thesis
      by (cases "GetTrackedDeviceClass env n")
        (simp_all add: UpdatePositions_device_def handIndex_slot Let_def
          k_unTrackedDeviceIndex_Hmd_def pose_matrix_def)
  qed
qed

lemma UpdatePositions_devices:
  assumes "m_vrSystem w \<noteq> None"
  shows "\<exists>w'. for_each [0..<n] (UpdatePositions_device env) w = ([], Inr w')
     \<and> m_vrSystem w' = m_vrSystem w
     \<and> m_trackedDevicePose w' = m_trackedDevicePose w
     \<and> m_eyeInfos w' = m_eyeInfos w
     \<and> m_cameraTranslation w' = m_cameraTranslation w
     \<and> m_cameraRotations w' = m_cameraRotations w
     \<and> m_matrixDevicePose w' =
         (\<lambda>i. if i < n \<and> bPoseIsValid (m_trackedDevicePose w i)
               then pose_matrix (m_trackedDevicePose w) i else m_matrixDevicePose w i)
     \<and> m_hmdPose w' =
         (if tracked_headsets (m_trackedDevicePose w) env n = [] then m_hmdPose w
          else inverted env
            (if bPoseIsValid (m_trackedDevicePose w 0) then pose_matrix (m_trackedDevicePose w) 0
             else m_matrixDevicePose w 0))
     \<and> m_controllers w' =
         (\<lambda>hand. if tracked_controllers_of_hand (m_trackedDevicePose w) env n hand = []
                  then m_controllers w hand
                  else (m_controllers w hand)
                    \<lparr> m_rmat4Pose := pose_matrix (m_trackedDevicePose w)
                        (last (tracked_controllers_of_hand (m_trackedDevicePose w) env n hand)) \<rparr>)"
proof (induction n)
  case 0
  show ?case
    by (simp add: tracked_headsets_def tracked_controllers_of_hand_def controllers_of_hand_def)
next
  case (Suc n)
  then obtain v where v: "for_each [0..<n] (UpdatePositions_device env) w = ([], Inr v)"
    and same: "m_vrSystem v = m_vrSystem w" "m_trackedDevicePose v = m_trackedDevicePose w"
      "m_eyeInfos v = m_eyeInfos w" "m_cameraTranslation v = m_cameraTranslation w"
      "m_cameraRotations v = m_cameraRotations w"
    and mat: "m_matrixDevicePose v =
         (\<lambda>i. if i < n \<and> bPoseIsValid (m_trackedDevicePose w i)
               then pose_matrix (m_trackedDevicePose w) i else m_matrixDevicePose w i)"
    and hmd: "m_hmdPose v =
         (if tracked_headsets (m_trackedDevicePose w) env n = [] then m_hmdPose w
          else inverted env
            (if bPoseIsValid (m_trackedDevicePose w 0) then pose_matrix (m_trackedDevicePose w) 0
             else m_matrixDevicePose w 0))"
    and ctl: "m_controllers v =
         (\<lambda>hand. if tracked_controllers_of_hand (m_trackedDevicePose w) env n hand = []
                  then m_controllers w hand
                  else (m_controllers w hand)
                    \<lparr> m_rmat4Pose := pose_matrix (m_trackedDevicePose w)
                        (last (tracked_controllers_of_hand (m_trackedDevicePose w) env n hand)) \<rparr>)"
    by blast
  have "m_vrSystem v \<noteq> None" using same assms by simp
  from UpdatePositions_device_fields [OF this, of env n]
  obtain v' where step: "UpdatePositions_device env n v = ([], Inr v')"
    and same': "m_vrSystem v' = m_vrSystem v" "m_trackedDevicePose v' = m_trackedDevicePose v"
      "m_eyeInfos v' = m_eyeInfos v" "m_cameraTranslation v' = m_cameraTranslation v"
      "m_cameraRotations v' = m_cameraRotations v"
    and mat': "m_matrixDevicePose v' =
         (if bPoseIsValid (m_trackedDevicePose v n)
          then (m_matrixDevicePose v)(n := pose_matrix (m_trackedDevicePose v) n)
          else m_matrixDevicePose v)"
    and hmd': "m_hmdPose v' =
         (if bPoseIsValid (m_trackedDevicePose v n)
             \<and> GetTrackedDeviceClass env n = TrackedDeviceClass_HMD
          then inverted env (((m_matrixDevicePose v)(n := pose_matrix (m_trackedDevicePose v) n)) 0)
          else m_hmdPose v)"
    and ctl': "m_controllers v' =
         (if bPoseIsValid (m_trackedDevicePose v n)
             \<and> GetTrackedDeviceClass env n = TrackedDeviceClass_Controller
          then (m_controllers v)
             (slot_of_role (GetControllerRoleForTrackedDeviceIndex env n) :=
                (m_controllers v (slot_of_role (GetControllerRoleForTrackedDeviceIndex env n)))
                  \<lparr> m_rmat4Pose := pose_matrix (m_trackedDevicePose v) n \<rparr>)
          else m_controllers v)"
    by blast
  have run: "for_each [0..<Suc n] (UpdatePositions_device env) w = ([], Inr v')"
    by (simp add: for_each_append v step)
  have m: "m_matrixDevicePose v' =
         (\<lambda>i. if i < Suc n \<and> bPoseIsValid (m_trackedDevicePose w i)
               then pose_matrix (m_trackedDevicePose w) i else m_matrixDevicePose w i)"
    by (auto simp add: mat' mat same fun_eq_iff less_Suc_eq)
  have h: "m_hmdPose v' =
         (if tracked_headsets (m_trackedDevicePose w) env (Suc n) = [] then m_hmdPose w
          else inverted env
            (if bPoseIsValid (m_trackedDevicePose w 0) then pose_matrix (m_trackedDevicePose w) 0
             else m_matrixDevicePose w 0))"
    by (auto simp add: hmd' hmd mat same tracked_headsets_def)
  have c: "m_controllers v' =
         (\<lambda>hand. if tracked_controllers_of_hand (m_trackedDevicePose w) env (Suc n) hand = []
                  then m_controllers w hand
                  else (m_controllers w hand)
                    \<lparr> m_rmat4Pose := pose_matrix (m_trackedDevicePose w)
                        (last (tracked_controllers_of_hand (m_trackedDevicePose w) env (Suc n) hand)) \<rparr>)"
    by (auto simp add: ctl' ctl same tracked_controllers_of_hand_def controllers_of_hand_def
        fun_eq_iff)
  from run same same' m h c show ?case by simp
qed


lemma tracked_headsets_cong:
  "(\<And>i. i < n \<Longrightarrow> p i = q i) \<Longrightarrow> tracked_headsets p env n = tracked_headsets q env n"
  unfolding tracked_headsets_def by (rule filter_cong) auto

lemma tracked_controllers_cong:
  "(\<And>i. i < n \<Longrightarrow> p i = q i) \<Longrightarrow>
   tracked_controllers_of_hand p env n hand = tracked_controllers_of_hand q env n hand"
  unfolding tracked_controllers_of_hand_def controllers_of_hand_def
  by (rule filter_cong) auto

lemma tracked_controllers_last:
  "tracked_controllers_of_hand p env n hand \<noteq> [] \<Longrightarrow>
   last (tracked_controllers_of_hand p env n hand) < n"
proof -
  assume "tracked_controllers_of_hand p env n hand \<noteq> []"
  then have "last (tracked_controllers_of_hand p env n hand)
      \<in> set (tracked_controllers_of_hand p env n hand)"
    by (rule last_in_set)
  then show ?thesis
    by (simp add: tracked_controllers_of_hand_def controllers_of_hand_def)
qed

lemma UpdatePositions_eyes:
  assumes "m_vrSystem w \<noteq> None" "m_eyeInfos w Left = Some eL" "m_eyeInfos w Right = Some eR"
  shows "for_each both (UpdatePositions_eye env) w =
     ([], Inr (w\<lparr> m_eyeInfos := (m_eyeInfos w)
        (Left := Some (SetTransformMatrix
            (inverted env (vrMatrixToQt_34 (GetEyeToHeadTransform env Eye_Left)))
            (vrMatrixToQt_44 (GetProjectionMatrix env Eye_Left NEAR_CLIP FAR_CLIP)) eL),
         Right := Some (SetTransformMatrix
            (inverted env (vrMatrixToQt_34 (GetEyeToHeadTransform env Eye_Right)))
            (vrMatrixToQt_44 (GetProjectionMatrix env Eye_Right NEAR_CLIP FAR_CLIP)) eR)) \<rparr>))"
  using assms by (auto simp add: both_def UpdatePositions_eye_def)

lemma UpdatePositions_fields:
  assumes vr: "m_vrSystem w \<noteq> None"
    and eL: "m_eyeInfos w Left = Some eL" and eR: "m_eyeInfos w Right = Some eR"
  shows "\<exists>w'. UpdatePositions env w = ([EvWaitGetPoses], Inr w')
     \<and> m_vrSystem w' = m_vrSystem w
     \<and> m_cameraTranslation w' = m_cameraTranslation w
     \<and> m_cameraRotations w' = m_cameraRotations w
     \<and> m_eyeInfos w' = (m_eyeInfos w)
        (Left := Some (SetTransformMatrix
            (inverted env (vrMatrixToQt_34 (GetEyeToHeadTransform env Eye_Left)))
            (vrMatrixToQt_44 (GetProjectionMatrix env Eye_Left NEAR_CLIP FAR_CLIP)) eL),
         Right := Some (SetTransformMatrix
            (inverted env (vrMatrixToQt_34 (GetEyeToHeadTransform env Eye_Right)))
            (vrMatrixToQt_44 (GetProjectionMatrix env Eye_Right NEAR_CLIP FAR_CLIP)) eR))
     \<and> m_hmdPose w' =
         (if tracked_headsets (WaitGetPoses env) env k_unMaxTrackedDeviceCount = [] then m_hmdPose w
          else inverted env
            (if bPoseIsValid (WaitGetPoses env 0) then pose_matrix (WaitGetPoses env) 0
             else m_matrixDevicePose w 0))
     \<and> m_controllers w' =
         (\<lambda>hand. if tracked_controllers_of_hand (WaitGetPoses env) env k_unMaxTrackedDeviceCount hand = []
                  then m_controllers w hand
                  else (m_controllers w hand)
                    \<lparr> m_rmat4Pose := pose_matrix (WaitGetPoses env)
                        (last (tracked_controllers_of_hand (WaitGetPoses env) env
                                 k_unMaxTrackedDeviceCount hand)) \<rparr>)"
proof -
  let ?N = k_unMaxTrackedDeviceCount
  define w1 where "w1 = w\<lparr> m_eyeInfos := (m_eyeInfos w)
        (Left := Some (SetTransformMatrix
            (inverted env (vrMatrixToQt_34 (GetEyeToHeadTransform env Eye_Left)))
            (vrMatrixToQt_44 (GetProjectionMatrix env Eye_Left NEAR_CLIP FAR_CLIP)) eL),
         Right := Some (SetTransformMatrix
            (inverted env (vrMatrixToQt_34 (GetEyeToHeadTransform env Eye_Right)))
            (vrMatrixToQt_44 (GetProjectionMatrix env Eye_Right NEAR_CLIP FAR_CLIP)) eR)) \<rparr>"
  define w2 where "w2 = w1\<lparr> m_trackedDevicePose :=
              (\<lambda>i. if i < ?N then WaitGetPoses env i else m_trackedDevicePose w1 i) \<rparr>"
  have eyes: "for_each both (UpdatePositions_eye env) w = ([], Inr w1)"
    unfolding w1_def by (rule UpdatePositions_eyes [OF vr eL eR])
  have wait: "WaitGetPoses_into env w1 = ([EvWaitGetPoses], Inr w2)"
    by (simp add: WaitGetPoses_into_def w2_def)
  have vr2: "m_vrSystem w2 \<noteq> None"
    using vr by (simp add: w2_def w1_def)
  have poses: "m_trackedDevicePose w2 i = WaitGetPoses env i" if "i < ?N" for i
    using that by (simp add: w2_def)
  have pm: "pose_matrix (m_trackedDevicePose w2) i = pose_matrix (WaitGetPoses env) i"
    if "i < ?N" for i
    using that by (simp add: pose_matrix_def poses)
  have pos: "0 < ?N" by (simp add: k_unMaxTrackedDeviceCount_def)
  from UpdatePositions_devices [OF vr2, of ?N env]
  obtain w' where run: "for_each [0..<?N] (UpdatePositions_device env) w2 = ([], Inr w')"
    and same: "m_vrSystem w' = m_vrSystem w2" "m_eyeInfos w' = m_eyeInfos w2"
      "m_cameraTranslation w' = m_cameraTranslation w2"
      "m_cameraRotations w' = m_cameraRotations w2"
    and hmd: "m_hmdPose w' =
         (if tracked_headsets (m_trackedDevicePose w2) env ?N = [] then m_hmdPose w2
          else inverted env
            (if bPoseIsValid (m_trackedDevicePose w2 0) then pose_matrix (m_trackedDevicePose w2) 0
             else m_matrixDevicePose w2 0))"
    and ctl: "m_controllers w' =
         (\<lambda>hand. if tracked_controllers_of_hand (m_trackedDevicePose w2) env ?N hand = []
                  then m_controllers w2 hand
                  else (m_controllers w2 hand)
                    \<lparr> m_rmat4Pose := pose_matrix (m_trackedDevicePose w2)
                        (last (tracked_controllers_of_hand (m_trackedDevicePose w2) env ?N hand)) \<rparr>)"
    by blast
  have th: "tracked_headsets (m_trackedDevicePose w2) env ?N = tracked_headsets (WaitGetPoses env) env ?N"
    by (rule tracked_headsets_cong) (rule poses)
  have tc: "tracked_controllers_of_hand (m_trackedDevicePose w2) env ?N hand
      = tracked_controllers_of_hand (WaitGetPoses env) env ?N hand" for hand
    by (rule tracked_controllers_cong) (rule poses)
  have all: "UpdatePositions env w = ([EvWaitGetPoses], Inr w')"
    by (simp add: UpdatePositions_def eyes wait run)
  have h: "m_hmdPose w' =
         (if tracked_headsets (WaitGetPoses env) env ?N = [] then m_hmdPose w
          else inverted env
            (if bPoseIsValid (WaitGetPoses env 0) then pose_matrix (WaitGetPoses env) 0
             else m_matrixDevicePose w 0))"
    unfolding hmd th using pos by (simp add: poses pm) (simp add: w2_def w1_def)
  have c: "m_controllers w' =
         (\<lambda>hand. if tracked_controllers_of_hand (WaitGetPoses env) env ?N hand = []
                  then m_controllers w hand
                  else (m_controllers w hand)
                    \<lparr> m_rmat4Pose := pose_matrix (WaitGetPoses env)
                        (last (tracked_controllers_of_hand (WaitGetPoses env) env ?N hand)) \<rparr>)"
    unfolding ctl tc
    by (auto simp add: fun_eq_iff pm tracked_controllers_last) (simp_all add: w2_def w1_def)
  from all same h c show ?thesis
    by (simp add: w2_def w1_def)
qed


subsection \<open>The loop of \<open>InitializeControllers\<close>\<close>

lemma InitializeControllers_device_fields:
  assumes "m_vrSystem v \<noteq> None"
    and "GetTrackedDeviceClass env n = TrackedDeviceClass_Controller \<longrightarrow>
         (\<exists>p. snd (LoadModel env (getTrackedDeviceString env n Prop_RenderModelName_String)) = Inr p)"
  shows "\<exists>t v'. InitializeControllers_device env n v = (t, Inr v')
     \<and> m_vrSystem v' = m_vrSystem v
     \<and> m_eyeInfos v' = m_eyeInfos v
     \<and> m_hmdPose v' = m_hmdPose v
     \<and> m_controllers v' =
         (if GetTrackedDeviceClass env n = TrackedDeviceClass_Controller
          then (m_controllers v)
             (slot_of_role (GetControllerRoleForTrackedDeviceIndex env n) :=
                (m_controllers v (slot_of_role (GetControllerRoleForTrackedDeviceIndex env n)))
                  \<lparr> m_pRenderModel := loaded env n, m_bShowController := True \<rparr>)
          else m_controllers v)"
proof -
  obtain vr where vr: "m_vrSystem v = Some vr" using assms(1) by auto
  show ?thesis
  proof (cases "GetTrackedDeviceClass env n = TrackedDeviceClass_Controller")
    case False
    with vr show ?thesis by (simp add: InitializeControllers_device_def)
  next
    case True
    with assms(2) obtain p where
      p: "snd (LoadModel env (getTrackedDeviceString env n Prop_RenderModelName_String)) = Inr p"
      by blast
    then obtain t where
      t: "LoadModel env (getTrackedDeviceString env n Prop_RenderModelName_String) = (t, Inr p)"
      by (cases "LoadModel env (getTrackedDeviceString env n Prop_RenderModelName_String)") simp
    have l: "loaded env n = p" by (simp add: loaded_def p)
    from True vr show ?thesis
      by (simp add: InitializeControllers_device_def handIndex_slot Let_def t l)
  qed
qed

lemma InitializeControllers_devices:
  assumes vr: "m_vrSystem w \<noteq> None"
    and loads: "\<forall>i<n. GetTrackedDeviceClass env i = TrackedDeviceClass_Controller \<longrightarrow>
         (\<exists>p. snd (LoadModel env (getTrackedDeviceString env i Prop_RenderModelName_String)) = Inr p)"
  shows "\<exists>t w'. for_each [0..<n] (InitializeControllers_device env) w = (t, Inr w')
     \<and> m_vrSystem w' = m_vrSystem w
     \<and> m_eyeInfos w' = m_eyeInfos w
     \<and> m_hmdPose w' = m_hmdPose w
     \<and> m_controllers w' =
         (\<lambda>hand. if controllers_of_hand env n hand = [] then m_controllers w hand
                  else (m_controllers w hand)
                    \<lparr> m_pRenderModel := loaded env (last (controllers_of_hand env n hand)),
                      m_bShowController := True \<rparr>)"
  using loads
proof (induction n)
  case 0
  show ?case by (simp add: controllers_of_hand_def)
next
  case (Suc n)
  from Suc.prems have "\<forall>i<n. GetTrackedDeviceClass env i = TrackedDeviceClass_Controller \<longrightarrow>
         (\<exists>p. snd (LoadModel env (getTrackedDeviceString env i Prop_RenderModelName_String)) = Inr p)"
    by simp
  from Suc.IH [OF this]
  obtain t v where v: "for_each [0..<n] (InitializeControllers_device env) w = (t, Inr v)"
    and same: "m_vrSystem v = m_vrSystem w" "m_eyeInfos v = m_eyeInfos w" "m_hmdPose v = m_hmdPose w"
    and ctl: "m_controllers v =
         (\<lambda>hand. if controllers_of_hand env n hand = [] then m_controllers w hand
                  else (m_controllers w hand)
                    \<lparr> m_pRenderModel := loaded env (last (controllers_of_hand env n hand)),
                      m_bShowController := True \<rparr>)"
    by blast
  have vr': "m_vrSystem v \<noteq> None" using same vr by simp
  have ld: "GetTrackedDeviceClass env n = TrackedDeviceClass_Controller \<longrightarrow>
         (\<exists>p. snd (LoadModel env (getTrackedDeviceString env n Prop_RenderModelName_String)) = Inr p)"
    using Suc.prems by simp
  from InitializeControllers_device_fields [OF vr' ld]
  obtain t' v' where step: "InitializeControllers_device env n v = (t', Inr v')"
    and same': "m_vrSystem v' = m_vrSystem v" "m_eyeInfos v' = m_eyeInfos v"
      "m_hmdPose v' = m_hmdPose v"
    and ctl': "m_controllers v' =
         (if GetTrackedDeviceClass env n = TrackedDeviceClass_Controller
          then (m_controllers v)
             (slot_of_role (GetControllerRoleForTrackedDeviceIndex env n) :=
                (m_controllers v (slot_of_role (GetControllerRoleForTrackedDeviceIndex env n)))
                  \<lparr> m_pRenderModel := loaded env n, m_bShowController := True \<rparr>)
          else m_controllers v)"
    by blast
  have run: "for_each [0..<Suc n] (InitializeControllers_device env) w = (t @ t', Inr v')"
    by (simp add: for_each_append v step)
  have c: "m_controllers v' =
         (\<lambda>hand. if controllers_of_hand env (Suc n) hand = [] then m_controllers w hand
                  else (m_controllers w hand)
                    \<lparr> m_pRenderModel := loaded env (last (controllers_of_hand env (Suc n) hand)),
                      m_bShowController := True \<rparr>)"
    by (auto simp add: ctl' ctl controllers_of_hand_def fun_eq_iff)
  from run same same' c show ?case by simp
qed

lemma InitializeControllers_fields:
  assumes vr: "m_vrSystem w \<noteq> None"
    and loads: "\<forall>i<k_unMaxTrackedDeviceCount.
         GetTrackedDeviceClass env i = TrackedDeviceClass_Controller \<longrightarrow>
         (\<exists>p. snd (LoadModel env (getTrackedDeviceString env i Prop_RenderModelName_String)) = Inr p)"
  shows "\<exists>t w'. InitializeControllers env w = (t, Inr (True, w'))
     \<and> m_vrSystem w' = m_vrSystem w
     \<and> m_eyeInfos w' = m_eyeInfos w
     \<and> m_hmdPose w' = m_hmdPose w
     \<and> m_controllers w' =
         (\<lambda>hand. if controllers_of_hand env k_unMaxTrackedDeviceCount hand = []
                  then m_controllers w hand
                  else (m_controllers w hand)
                    \<lparr> m_pRenderModel :=
                        loaded env (last (controllers_of_hand env k_unMaxTrackedDeviceCount hand)),
                      m_bShowController := True \<rparr>)"
proof -
  define w1 where "w1 = w\<lparr> m_trackedDevicePose :=
              (\<lambda>i. if i < k_unMaxTrackedDeviceCount then WaitGetPoses env i
                    else m_trackedDevicePose w i) \<rparr>"
  have wait: "WaitGetPoses_into env w = ([EvWaitGetPoses], Inr w1)"
    by (simp add: WaitGetPoses_into_def w1_def)
  have vr1: "m_vrSystem w1 \<noteq> None" using vr by (simp add: w1_def)
  from InitializeControllers_devices [OF vr1 loads]
  obtain t w' where run:
      "for_each [0..<k_unMaxTrackedDeviceCount] (InitializeControllers_device env) w1 = (t, Inr w')"
    and same: "m_vrSystem w' = m_vrSystem w1" "m_eyeInfos w' = m_eyeInfos w1"
      "m_hmdPose w' = m_hmdPose w1"
    and ctl: "m_controllers w' =
         (\<lambda>hand. if controllers_of_hand env k_unMaxTrackedDeviceCount hand = []
                  then m_controllers w1 hand
                  else (m_controllers w1 hand)
                    \<lparr> m_pRenderModel :=
                        loaded env (last (controllers_of_hand env k_unMaxTrackedDeviceCount hand)),
                      m_bShowController := True \<rparr>)"
    by blast
  have all: "InitializeControllers env w =
      ([EvWaitGetPoses] @ t @ [EvInitializeInputs], Inr (True, w'))"
    by (simp add: InitializeControllers_def wait run)
  have w1: "m_controllers w1 = m_controllers w" "m_vrSystem w1 = m_vrSystem w"
    "m_eyeInfos w1 = m_eyeInfos w" "m_hmdPose w1 = m_hmdPose w"
    by (simp_all add: w1_def)
  from all same ctl show ?thesis unfolding w1 by blast
qed

subsection \<open>Rendering one eye\<close>

lemma renderEye_hands:
  "for_each both (renderEye_hand env v matVP) () =
     (shown_draws env v matVP both,
      if models_present v then Inr () else Inl NullPointerDereference)"
  by (auto simp add: both_def renderEye_hand_def models_present_def Draw_def
      split: option.splits)

lemma renderEye_trace:
  assumes "m_eyeInfos v eye = Some e"
  shows "renderEye env eye v =
     ([EvGlClear, EvGlEnable GL_DEPTH_TEST]
        @ shown_draws env v (times env (m_projection e) (times env (m_view e) (m_hmdPose v))) both
        @ (if models_present v
           then [EvRender eye
                   (times env (times env (m_view e) (m_hmdPose v)) (GetCameraMatrix env v))
                   (m_projection e)]
           else []),
      if models_present v then Inr () else Inl NullPointerDereference)"
  by (simp add: renderEye_def assms GetProjectionMatrix_eye_def GetViewMatrix_def Let_def
      renderEye_hands)

lemma renderEye_result:
  assumes "m_eyeInfos v eye = Some e"
    and "\<forall>hand. m_bShowController (m_controllers v hand) \<longrightarrow>
              m_pRenderModel (m_controllers v hand) \<noteq> None"
  shows "renderEye env eye v =
     ([EvGlClear, EvGlEnable GL_DEPTH_TEST]
        @ shown_draws env v (times env (m_projection e) (times env (m_view e) (m_hmdPose v))) both
        @ [EvRender eye (times env (times env (m_view e) (m_hmdPose v)) (GetCameraMatrix env v))
             (m_projection e)],
      Inr ())"
proof -
  have "models_present v"
    using assms(2) by (simp add: models_present_def)
  then show ?thesis
    using renderEye_trace [OF assms(1), of env] by simp
qed


subsection \<open>Controller slots\<close>

text \<open>
  C7. Both loops over the tracked devices select the Left slot if and only if the role the
  VR system reports is \<open>LeftHand\<close>, and the Right slot in every other case. When every
  render model finishes loading, \<open>InitializeControllers\<close> returns with each slot either
  untouched (no device of class Controller is assigned to it) or holding the model of the last
  such device, shown; \<open>UpdatePositions\<close> leaves each slot untouched or gives it the pose of
  the last device of class Controller with a valid pose assigned to it. Devices of other
  classes are not in these lists: they never modify a slot.
\<close>

theorem C7_controller_slots:
  assumes "m_vrSystem w \<noteq> None"
  shows "(handIndex role = Left \<longleftrightarrow> role = TrackedControllerRole_LeftHand)
     \<and> (handIndex role = Right \<longleftrightarrow> role \<noteq> TrackedControllerRole_LeftHand)
     \<and> ((\<forall>i<k_unMaxTrackedDeviceCount.
            GetTrackedDeviceClass env i = TrackedDeviceClass_Controller \<longrightarrow>
            (\<exists>p. snd (LoadModel env (getTrackedDeviceString env i Prop_RenderModelName_String))
                   = Inr p)) \<longrightarrow>
         (\<exists>t w'. InitializeControllers env w = (t, Inr (True, w'))
            \<and> (\<forall>hand. m_controllers w' hand =
                 (if controllers_of_hand env k_unMaxTrackedDeviceCount hand = []
                  then m_controllers w hand
                  else (m_controllers w hand)
                    \<lparr> m_pRenderModel :=
                        loaded env (last (controllers_of_hand env k_unMaxTrackedDeviceCount hand)),
                      m_bShowController := True \<rparr>))))
     \<and> (m_eyeInfos w Left \<noteq> None \<and> m_eyeInfos w Right \<noteq> None \<longrightarrow>
         (\<exists>t w'. UpdatePositions env w = (t, Inr w')
            \<and> (\<forall>hand. m_controllers w' hand =
                 (if tracked_controllers_of_hand (WaitGetPoses env) env
                       k_unMaxTrackedDeviceCount hand = []
                  then m_controllers w hand
                  else (m_controllers w hand)
                    \<lparr> m_rmat4Pose := vrMatrixToQt_34 (mDeviceToAbsoluteTracking
                        (WaitGetPoses env (last (tracked_controllers_of_hand (WaitGetPoses env) env
                                 k_unMaxTrackedDeviceCount hand)))) \<rparr>))))"
proof -
  have a: "handIndex role = Left \<longleftrightarrow> role = TrackedControllerRole_LeftHand"
    by (simp add: handIndex_def)
  have b: "handIndex role = Right \<longleftrightarrow> role \<noteq> TrackedControllerRole_LeftHand"
    by (simp add: handIndex_def)
  have c: "(\<forall>i<k_unMaxTrackedDeviceCount.
            GetTrackedDeviceClass env i = TrackedDeviceClass_Controller \<longrightarrow>
            (\<exists>p. snd (LoadModel env (getTrackedDeviceString env i Prop_RenderModelName_String))
                   = Inr p)) \<longrightarrow>
         (\<exists>t w'. InitializeControllers env w = (t, Inr (True, w'))
            \<and> (\<forall>hand. m_controllers w' hand =
                 (if controllers_of_hand env k_unMaxTrackedDeviceCount hand = []
                  then m_controllers w hand
                  else (m_controllers w hand)
                    \<lparr> m_pRenderModel :=
                        loaded env (last (controllers_of_hand env k_unMaxTrackedDeviceCount hand)),
                      m_bShowController := True \<rparr>)))"
  proof
    assume "\<forall>i<k_unMaxTrackedDeviceCount.
            GetTrackedDeviceClass env i = TrackedDeviceClass_Controller \<longrightarrow>
            (\<exists>p. snd (LoadModel env (getTrackedDeviceString env i Prop_RenderModelName_String))
                   = Inr p)"
    from InitializeControllers_fields [OF assms this]
    obtain t w' where "InitializeControllers env w = (t, Inr (True, w'))"
      and "m_controllers w' =
         (\<lambda>hand. if controllers_of_hand env k_unMaxTrackedDeviceCount hand = []
                  then m_controllers w hand
                  else (m_controllers w hand)
                    \<lparr> m_pRenderModel :=
                        loaded env (last (controllers_of_hand env k_unMaxTrackedDeviceCount hand)),
                      m_bShowController := True \<rparr>)"
      by blast
    then show "\<exists>t w'. InitializeControllers env w = (t, Inr (True, w'))
            \<and> (\<forall>hand. m_controllers w' hand =
                 (if controllers_of_hand env k_unMaxTrackedDeviceCount hand = []
                  then m_controllers w hand
                  else (m_controllers w hand)
                    \<lparr> m_pRenderModel :=
                        loaded env (last (controllers_of_hand env k_unMaxTrackedDeviceCount hand)),
                      m_bShowController := True \<rparr>))"
      by simp
  qed
  have d: "m_eyeInfos w Left \<noteq> None \<and> m_eyeInfos w Right \<noteq> None \<longrightarrow>
         (\<exists>t w'. UpdatePositions env w = (t, Inr w')
            \<and> (\<forall>hand. m_controllers w' hand =
                 (if tracked_controllers_of_hand (WaitGetPoses env) env
                       k_unMaxTrackedDeviceCount hand = []
                  then m_controllers w hand
                  else (m_controllers w hand)
                    \<lparr> m_rmat4Pose := vrMatrixToQt_34 (mDeviceToAbsoluteTracking
                        (WaitGetPoses env (last (tracked_controllers_of_hand (WaitGetPoses env) env
                                 k_unMaxTrackedDeviceCount hand)))) \<rparr>)))"
  proof
    assume "m_eyeInfos w Left \<noteq> None \<and> m_eyeInfos w Right \<noteq> None"
    then obtain eL eR where e: "m_eyeInfos w Left = Some eL" "m_eyeInfos w Right = Some eR"
      by auto
    from UpdatePositions_fields [OF assms e, of env]
    obtain w' where "UpdatePositions env w = ([EvWaitGetPoses], Inr w')"
      and "m_controllers w' =
         (\<lambda>hand. if tracked_controllers_of_hand (WaitGetPoses env) env k_unMaxTrackedDeviceCount hand = []
                  then m_controllers w hand
                  else (m_controllers w hand)
                    \<lparr> m_rmat4Pose := pose_matrix (WaitGetPoses env)
                        (last (tracked_controllers_of_hand (WaitGetPoses env) env
                                 k_unMaxTrackedDeviceCount hand)) \<rparr>)"
      by blast
    then show "\<exists>t w'. UpdatePositions env w = (t, Inr w')
            \<and> (\<forall>hand. m_controllers w' hand =
                 (if tracked_controllers_of_hand (WaitGetPoses env) env
                       k_unMaxTrackedDeviceCount hand = []
                  then m_controllers w hand
                  else (m_controllers w hand)
                    \<lparr> m_rmat4Pose := vrMatrixToQt_34 (mDeviceToAbsoluteTracking
                        (WaitGetPoses env (last (tracked_controllers_of_hand (WaitGetPoses env) env
                                 k_unMaxTrackedDeviceCount hand)))) \<rparr>))"
      by (simp add: pose_matrix_def)
  qed
  from a b c d show ?thesis by blast
qed

subsection \<open>The concrete environment\<close>

lemma demo_LoadModel:
  "snd (LoadModel demo_env name) =
     Inr (Some \<lparr> m_sModelName = name, m_unVertexCount = 300 \<rparr>)"
  by (simp add: LoadModel_def demo_env_def poll.simps InitModel_def CRenderModel_ctor_def)

lemma devices_unrolled: "[0..<k_unMaxTrackedDeviceCount] = [0, 1, 2] @ [3..<64]"
  by (simp add: k_unMaxTrackedDeviceCount_def upt_conv_Cons)

lemma demo_left: "controllers_of_hand demo_env k_unMaxTrackedDeviceCount Left = [1]"
  by (simp add: controllers_of_hand_def devices_unrolled demo_env_def slot_of_role_def
      filter_empty_conv del: upt.simps)

lemma demo_right: "controllers_of_hand demo_env k_unMaxTrackedDeviceCount Right = [2]"
  by (simp add: controllers_of_hand_def devices_unrolled demo_env_def slot_of_role_def
      filter_empty_conv)

lemma demo_tracked: "tracked_controllers_of_hand (WaitGetPoses demo_env) demo_env k_unMaxTrackedDeviceCount Right = [2]"
  by (simp add: tracked_controllers_of_hand_def demo_right) (simp add: demo_env_def demo_pose_def)

lemma demo_tracked_left: "tracked_controllers_of_hand (WaitGetPoses demo_env) demo_env k_unMaxTrackedDeviceCount Left = [1]"
  by (simp add: tracked_controllers_of_hand_def demo_left) (simp add: demo_env_def demo_pose_def)

lemma ready_widget_vr: "m_vrSystem ready_widget \<noteq> None"
  by (simp add: ready_widget_def active_widget_def)

lemma ready_widget_eyes:
  "m_eyeInfos ready_widget Left \<noteq> None \<and> m_eyeInfos ready_widget Right \<noteq> None"
  by (simp add: ready_widget_def)

theorem C7_controller_slots_witness:
  "m_vrSystem ready_widget \<noteq> None
   \<and> (\<exists>t w'. InitializeControllers demo_env ready_widget = (t, Inr (True, w'))
        \<and> m_pRenderModel (m_controllers w' Left)
             = Some \<lparr> m_sModelName = ''vr_controller'', m_unVertexCount = 300 \<rparr>
        \<and> m_bShowController (m_controllers w' Right))
   \<and> (\<exists>t w'. UpdatePositions demo_env ready_widget = (t, Inr w')
        \<and> m_rmat4Pose (m_controllers w' Left) = translation_matrix (- 1) 1 0
        \<and> m_rmat4Pose (m_controllers w' Right) = translation_matrix 1 1 0)"
proof -
  have loads: "\<forall>i<k_unMaxTrackedDeviceCount.
      GetTrackedDeviceClass demo_env i = TrackedDeviceClass_Controller \<longrightarrow>
      (\<exists>p. snd (LoadModel demo_env (getTrackedDeviceString demo_env i Prop_RenderModelName_String))
             = Inr p)"
    by (simp add: demo_LoadModel)
  have name: "getTrackedDeviceString demo_env i Prop_RenderModelName_String = ''vr_controller''"
    for i
    by (simp add: getTrackedDeviceString_def demo_env_def)
  have l: "loaded demo_env i = Some \<lparr> m_sModelName = ''vr_controller'', m_unVertexCount = 300 \<rparr>"
    for i
    by (simp add: loaded_def demo_LoadModel name)
  have p1: "vrMatrixToQt_34 (mDeviceToAbsoluteTracking (WaitGetPoses demo_env (Suc 0)))
      = translation_matrix (- 1) 1 0"
    and p2: "vrMatrixToQt_34 (mDeviceToAbsoluteTracking (WaitGetPoses demo_env 2))
      = translation_matrix 1 1 0"
    by (simp_all add: demo_env_def demo_pose_def translation_matrix_def)
  from C7_controller_slots [OF ready_widget_vr, of TrackedControllerRole_LeftHand demo_env]
    loads ready_widget_eyes
  show ?thesis
    by (auto simp add: ready_widget_vr demo_left demo_right demo_tracked demo_tracked_left l p1 p2)
qed

subsection \<open>The pose pipeline\<close>

text \<open>
  C1, amended. In a frame in which the VR system is active and both \<open>CEyeInfos\<close> exist,
  \<open>UpdatePositions\<close> sets each eye's view matrix to the inverse of the SDK eye-to-head
  transform of that eye and its projection matrix to the SDK projection matrix with near clip
  \<open>0.1f\<close> (the single-precision number 13421773 / 134217728) and far clip 10000. It sets
  \<open>m_hmdPose\<close> to the inverse of the pose matrix of the headset (tracked device 0) when that
  device has a valid pose and class HMD, and leaves \<open>m_hmdPose\<close> as it was when no device
  with a valid pose has class HMD. \<open>renderEye\<close> then clears, enables the depth test and goes
  through the two controllers, Left then Right: each shown controller is drawn with the matrix
  (projection * (eyeView * m_hmdPose)) * controllerPose, up to the first shown controller that
  has no render model, where the frame stops at a null pointer. When every shown controller
  has a render model, all of them are drawn and the scene is rendered with the view
  (eyeView * m_hmdPose) * camera and the eye's projection.
\<close>

theorem C1_pose_pipeline:
  assumes "m_vrSystem w \<noteq> None"
    and "m_eyeInfos w Left = Some eL" and "m_eyeInfos w Right = Some eR"
  shows "\<exists>w'. UpdatePositions env w = ([EvWaitGetPoses], Inr w')
     \<and> (\<forall>eye. \<exists>e. m_eyeInfos w' eye = Some e
          \<and> m_view e = inverted env (vrMatrixToQt_34 (GetEyeToHeadTransform env (to_EVREye eye)))
          \<and> m_projection e =
              vrMatrixToQt_44
                (GetProjectionMatrix env (to_EVREye eye) (13421773 / 134217728) 10000)
          \<and> renderEye env eye w' =
              ([EvGlClear, EvGlEnable GL_DEPTH_TEST]
                 @ shown_draws env w'
                     (times env (m_projection e) (times env (m_view e) (m_hmdPose w'))) both
                 @ (if models_present w'
                    then [EvRender eye
                            (times env (times env (m_view e) (m_hmdPose w'))
                               (GetCameraMatrix env w'))
                            (m_projection e)]
                    else []),
               if models_present w' then Inr () else Inl NullPointerDereference))
     \<and> (bPoseIsValid (WaitGetPoses env k_unTrackedDeviceIndex_Hmd)
          \<and> GetTrackedDeviceClass env k_unTrackedDeviceIndex_Hmd = TrackedDeviceClass_HMD \<longrightarrow>
        m_hmdPose w' = inverted env
          (vrMatrixToQt_34 (mDeviceToAbsoluteTracking (WaitGetPoses env k_unTrackedDeviceIndex_Hmd))))
     \<and> (tracked_headsets (WaitGetPoses env) env k_unMaxTrackedDeviceCount = [] \<longrightarrow>
        m_hmdPose w' = m_hmdPose w)"
proof -
  from UpdatePositions_fields [OF assms, of env]
  obtain w' where run: "UpdatePositions env w = ([EvWaitGetPoses], Inr w')"
    and eyes: "m_eyeInfos w' = (m_eyeInfos w)
        (Left := Some (SetTransformMatrix
            (inverted env (vrMatrixToQt_34 (GetEyeToHeadTransform env Eye_Left)))
            (vrMatrixToQt_44 (GetProjectionMatrix env Eye_Left NEAR_CLIP FAR_CLIP)) eL),
         Right := Some (SetTransformMatrix
            (inverted env (vrMatrixToQt_34 (GetEyeToHeadTransform env Eye_Right)))
            (vrMatrixToQt_44 (GetProjectionMatrix env Eye_Right NEAR_CLIP FAR_CLIP)) eR))"
    and hmd: "m_hmdPose w' =
         (if tracked_headsets (WaitGetPoses env) env k_unMaxTrackedDeviceCount = [] then m_hmdPose w
          else inverted env
            (if bPoseIsValid (WaitGetPoses env 0) then pose_matrix (WaitGetPoses env) 0
             else m_matrixDevicePose w 0))"
    by blast
  have eye: "\<exists>e. m_eyeInfos w' eye = Some e
          \<and> m_view e = inverted env (vrMatrixToQt_34 (GetEyeToHeadTransform env (to_EVREye eye)))
          \<and> m_projection e =
              vrMatrixToQt_44
                (GetProjectionMatrix env (to_EVREye eye) (13421773 / 134217728) 10000)
          \<and> renderEye env eye w' =
              ([EvGlClear, EvGlEnable GL_DEPTH_TEST]
                 @ shown_draws env w'
                     (times env (m_projection e) (times env (m_view e) (m_hmdPose w'))) both
                 @ (if models_present w'
                    then [EvRender eye
                            (times env (times env (m_view e) (m_hmdPose w'))
                               (GetCameraMatrix env w'))
                            (m_projection e)]
                    else []),
               if models_present w' then Inr () else Inl NullPointerDereference)" for eye
  proof -
    obtain e where e: "m_eyeInfos w' eye = Some e"
      and v: "m_view e = inverted env (vrMatrixToQt_34 (GetEyeToHeadTransform env (to_EVREye eye)))"
      and p: "m_projection e =
              vrMatrixToQt_44
                (GetProjectionMatrix env (to_EVREye eye) (13421773 / 134217728) 10000)"
      by (cases eye) (simp_all add: eyes SetTransformMatrix_def NEAR_CLIP_def FAR_CLIP_def)
    from renderEye_trace [OF e, of env] e v p show ?thesis by blast
  qed
  have tracked: "tracked_headsets (WaitGetPoses env) env k_unMaxTrackedDeviceCount \<noteq> []"
    if "bPoseIsValid (WaitGetPoses env 0)"
      "GetTrackedDeviceClass env 0 = TrackedDeviceClass_HMD"
  proof -
    have "0 \<in> set (tracked_headsets (WaitGetPoses env) env k_unMaxTrackedDeviceCount)"
      using that by (simp add: tracked_headsets_def k_unMaxTrackedDeviceCount_def)
    then show ?thesis by auto
  qed
  have h1: "bPoseIsValid (WaitGetPoses env k_unTrackedDeviceIndex_Hmd)
          \<and> GetTrackedDeviceClass env k_unTrackedDeviceIndex_Hmd = TrackedDeviceClass_HMD \<longrightarrow>
        m_hmdPose w' = inverted env
          (vrMatrixToQt_34 (mDeviceToAbsoluteTracking (WaitGetPoses env k_unTrackedDeviceIndex_Hmd)))"
    using tracked by (simp add: hmd k_unTrackedDeviceIndex_Hmd_def pose_matrix_def)
  have h2: "tracked_headsets (WaitGetPoses env) env k_unMaxTrackedDeviceCount = [] \<longrightarrow>
        m_hmdPose w' = m_hmdPose w"
    by (simp add: hmd)
  from run eye h1 h2 show ?thesis by blast
qed

lemma untracked_no_headset:
  "tracked_headsets (WaitGetPoses untracked_env) untracked_env k_unMaxTrackedDeviceCount = []"
  by (simp add: tracked_headsets_def filter_empty_conv untracked_env_def demo_env_def demo_pose_def)

theorem C1_untracked_headset_counterexample:
  "map_sum id m_hmdPose (snd (UpdatePositions untracked_env ready_widget)) = Inr identity_matrix
   \<and> inverted untracked_env (vrMatrixToQt_34 (mDeviceToAbsoluteTracking
         (WaitGetPoses untracked_env k_unTrackedDeviceIndex_Hmd))) = translation_matrix 0 (- 2) 0
   \<and> GetTrackedDeviceClass untracked_env k_unTrackedDeviceIndex_Hmd = TrackedDeviceClass_HMD
   \<and> identity_matrix \<noteq> translation_matrix 0 (- 2) 0"
proof -
  obtain eL eR where e: "m_eyeInfos ready_widget Left = Some eL"
      "m_eyeInfos ready_widget Right = Some eR"
    using ready_widget_eyes by auto
  from UpdatePositions_fields [OF ready_widget_vr e, of untracked_env]
  obtain w' where "UpdatePositions untracked_env ready_widget = ([EvWaitGetPoses], Inr w')"
    and "m_hmdPose w' = m_hmdPose ready_widget"
    unfolding untracked_no_headset by auto
  moreover have "m_hmdPose ready_widget = identity_matrix"
    by (simp add: ready_widget_def active_widget_def fresh_widget_def COpenVROpenGLWidget_ctor_def)
  ultimately have a: "map_sum id m_hmdPose (snd (UpdatePositions untracked_env ready_widget))
      = Inr identity_matrix"
    by simp
  have b: "inverted untracked_env (vrMatrixToQt_34 (mDeviceToAbsoluteTracking
         (WaitGetPoses untracked_env k_unTrackedDeviceIndex_Hmd))) = translation_matrix 0 (- 2) 0"
    by (simp add: untracked_env_def demo_env_def demo_pose_def translation_matrix_def
        k_unTrackedDeviceIndex_Hmd_def)
  have c: "GetTrackedDeviceClass untracked_env k_unTrackedDeviceIndex_Hmd = TrackedDeviceClass_HMD"
    by (simp add: untracked_env_def demo_env_def k_unTrackedDeviceIndex_Hmd_def)
  have d: "identity_matrix \<noteq> translation_matrix 0 (- 2) 0"
    by (simp add: identity_matrix_def translation_matrix_def)
  from a b c d show ?thesis by blast
qed

lemma playing_widget_vr: "m_vrSystem playing_widget \<noteq> None"
  by (simp add: playing_widget_def ready_widget_def active_widget_def)

lemma playing_widget_eyes:
  "m_eyeInfos playing_widget Left \<noteq> None \<and> m_eyeInfos playing_widget Right \<noteq> None"
  by (simp add: playing_widget_def ready_widget_def)

lemma playing_widget_controllers:
  "m_controllers playing_widget hand =
     \<lparr> m_rmat4Pose = identity_matrix,
       m_pRenderModel = Some \<lparr> m_sModelName = ''vr_controller'', m_unVertexCount = 300 \<rparr>,
       m_bShowController = True \<rparr>"
  by (simp add: playing_widget_def)

lemma demo_view_hmd:
  "times demo_env
     (inverted demo_env (vrMatrixToQt_34 (GetEyeToHeadTransform demo_env (to_EVREye Left))))
     (translation_matrix 0 (- 2) 0) = translation_matrix (1 / 32) (- 2) 0"
  by (simp add: demo_env_def translation_matrix_def demo_times_def)

lemma demo_draw_left:
  "times demo_env
     (times demo_env
        (vrMatrixToQt_44 (GetProjectionMatrix demo_env Eye_Left n f))
        (translation_matrix (1 / 32) (- 2) 0))
     (translation_matrix (- 1) 1 0) =
   QMatrix4x4 1 0 0 (- 31 / 32)  0 1 0 (- 1)  0 0 (- 1) (- 1 / 4)  0 0 (- 1) 0"
  by (simp add: demo_env_def translation_matrix_def demo_times_def)

lemma demo_draw_right:
  "times demo_env
     (times demo_env
        (vrMatrixToQt_44 (GetProjectionMatrix demo_env Eye_Left n f))
        (translation_matrix (1 / 32) (- 2) 0))
     (translation_matrix 1 1 0) =
   QMatrix4x4 1 0 0 (33 / 32)  0 1 0 (- 1)  0 0 (- 1) (- 1 / 4)  0 0 (- 1) 0"
  by (simp add: demo_env_def translation_matrix_def demo_times_def)

theorem C1_pose_pipeline_witness:
  "m_vrSystem playing_widget \<noteq> None
   \<and> (\<exists>w'. UpdatePositions demo_env playing_widget = ([EvWaitGetPoses], Inr w')
        \<and> m_hmdPose w' = translation_matrix 0 (- 2) 0
        \<and> map_option m_view (m_eyeInfos w' Left) = Some (translation_matrix (1 / 32) 0 0)
        \<and> renderEye demo_env Left w' =
            ([EvGlClear, EvGlEnable GL_DEPTH_TEST,
              EvDraw \<lparr> m_sModelName = ''vr_controller'', m_unVertexCount = 300 \<rparr>
                (QMatrix4x4 1 0 0 (- 31 / 32)  0 1 0 (- 1)  0 0 (- 1) (- 1 / 4)  0 0 (- 1) 0),
              EvDraw \<lparr> m_sModelName = ''vr_controller'', m_unVertexCount = 300 \<rparr>
                (QMatrix4x4 1 0 0 (33 / 32)  0 1 0 (- 1)  0 0 (- 1) (- 1 / 4)  0 0 (- 1) 0),
              EvRender Left
                (times demo_env (translation_matrix (1 / 32) (- 2) 0)
                   (GetCameraMatrix demo_env w'))
                (QMatrix4x4 1 0 0 0  0 1 0 0  0 0 (- 1) (- 1 / 4)  0 0 (- 1) 0)],
             Inr ()))
   \<and> tracked_headsets (WaitGetPoses untracked_env) untracked_env k_unMaxTrackedDeviceCount = []
   \<and> (\<exists>w'. UpdatePositions untracked_env playing_widget = ([EvWaitGetPoses], Inr w')
        \<and> m_hmdPose w' = identity_matrix)"
proof -
  obtain eL eR where e: "m_eyeInfos playing_widget Left = Some eL"
      "m_eyeInfos playing_widget Right = Some eR"
    using playing_widget_eyes by auto
  have v: "bPoseIsValid (WaitGetPoses demo_env k_unTrackedDeviceIndex_Hmd)
      \<and> GetTrackedDeviceClass demo_env k_unTrackedDeviceIndex_Hmd = TrackedDeviceClass_HMD"
    by (simp add: demo_env_def demo_pose_def k_unTrackedDeviceIndex_Hmd_def)
  have h: "inverted demo_env (vrMatrixToQt_34 (mDeviceToAbsoluteTracking
         (WaitGetPoses demo_env k_unTrackedDeviceIndex_Hmd))) = translation_matrix 0 (- 2) 0"
    by (simp add: demo_env_def demo_pose_def translation_matrix_def k_unTrackedDeviceIndex_Hmd_def)
  have l: "inverted demo_env (vrMatrixToQt_34 (GetEyeToHeadTransform demo_env (to_EVREye Left)))
      = translation_matrix (1 / 32) 0 0"
    by (simp add: demo_env_def translation_matrix_def)
  have pr: "vrMatrixToQt_44 (GetProjectionMatrix demo_env Eye_Left n f)
      = QMatrix4x4 1 0 0 0  0 1 0 0  0 0 (- 1) (- 1 / 4)  0 0 (- 1) 0" for n f
    by (simp add: demo_env_def)
  have p1: "pose_matrix (WaitGetPoses demo_env) (Suc 0) = translation_matrix (- 1) 1 0"
    and p2: "pose_matrix (WaitGetPoses demo_env) 2 = translation_matrix 1 1 0"
    by (simp_all add: pose_matrix_def demo_env_def demo_pose_def translation_matrix_def)
  from UpdatePositions_fields [OF playing_widget_vr e, of demo_env]
  obtain u where urun: "UpdatePositions demo_env playing_widget = ([EvWaitGetPoses], Inr u)"
    and uctl: "m_controllers u =
         (\<lambda>hand. if tracked_controllers_of_hand (WaitGetPoses demo_env) demo_env
                       k_unMaxTrackedDeviceCount hand = []
                  then m_controllers playing_widget hand
                  else (m_controllers playing_widget hand)
                    \<lparr> m_rmat4Pose := pose_matrix (WaitGetPoses demo_env)
                        (last (tracked_controllers_of_hand (WaitGetPoses demo_env) demo_env
                                 k_unMaxTrackedDeviceCount hand)) \<rparr>)"
    by blast
  have cL: "m_controllers u Left =
      \<lparr> m_rmat4Pose = translation_matrix (- 1) 1 0,
        m_pRenderModel = Some \<lparr> m_sModelName = ''vr_controller'', m_unVertexCount = 300 \<rparr>,
        m_bShowController = True \<rparr>"
    and cR: "m_controllers u Right =
      \<lparr> m_rmat4Pose = translation_matrix 1 1 0,
        m_pRenderModel = Some \<lparr> m_sModelName = ''vr_controller'', m_unVertexCount = 300 \<rparr>,
        m_bShowController = True \<rparr>"
    by (simp_all add: uctl demo_tracked demo_tracked_left playing_widget_controllers p1 p2)
  from C1_pose_pipeline [OF playing_widget_vr e, of demo_env]
  obtain w' where run: "UpdatePositions demo_env playing_widget = ([EvWaitGetPoses], Inr w')"
    and eye: "\<And>eye. \<exists>e. m_eyeInfos w' eye = Some e
          \<and> m_view e = inverted demo_env (vrMatrixToQt_34 (GetEyeToHeadTransform demo_env (to_EVREye eye)))
          \<and> m_projection e =
              vrMatrixToQt_44
                (GetProjectionMatrix demo_env (to_EVREye eye) (13421773 / 134217728) 10000)
          \<and> renderEye demo_env eye w' =
              ([EvGlClear, EvGlEnable GL_DEPTH_TEST]
                 @ shown_draws demo_env w'
                     (times demo_env (m_projection e) (times demo_env (m_view e) (m_hmdPose w')))
                     both
                 @ (if models_present w'
                    then [EvRender eye
                            (times demo_env (times demo_env (m_view e) (m_hmdPose w'))
                               (GetCameraMatrix demo_env w'))
                            (m_projection e)]
                    else []),
               if models_present w' then Inr () else Inl NullPointerDereference)"
    and hmd: "m_hmdPose w' = inverted demo_env
          (vrMatrixToQt_34 (mDeviceToAbsoluteTracking (WaitGetPoses demo_env k_unTrackedDeviceIndex_Hmd)))"
    using v by blast
  from run urun have same: "w' = u" by simp
  have hmd': "m_hmdPose w' = translation_matrix 0 (- 2) 0"
    using hmd h by simp
  have present: "models_present w'"
    by (simp add: models_present_def same cL cR)
  from eye [of Left] obtain e where e': "m_eyeInfos w' Left = Some e"
    and view: "m_view e = inverted demo_env
        (vrMatrixToQt_34 (GetEyeToHeadTransform demo_env (to_EVREye Left)))"
    and proj: "m_projection e =
        vrMatrixToQt_44 (GetProjectionMatrix demo_env (to_EVREye Left) (13421773 / 134217728) 10000)"
    and render: "renderEye demo_env Left w' =
              ([EvGlClear, EvGlEnable GL_DEPTH_TEST]
                 @ shown_draws demo_env w'
                     (times demo_env (m_projection e) (times demo_env (m_view e) (m_hmdPose w')))
                     both
                 @ (if models_present w'
                    then [EvRender Left
                            (times demo_env (times demo_env (m_view e) (m_hmdPose w'))
                               (GetCameraMatrix demo_env w'))
                            (m_projection e)]
                    else []),
               if models_present w' then Inr () else Inl NullPointerDereference)"
    by blast
  have vh: "times demo_env (m_view e) (m_hmdPose w') = translation_matrix (1 / 32) (- 2) 0"
    unfolding view hmd' by (rule demo_view_hmd)
  have draws: "shown_draws demo_env w'
        (times demo_env (m_projection e) (translation_matrix (1 / 32) (- 2) 0)) both =
      [EvDraw \<lparr> m_sModelName = ''vr_controller'', m_unVertexCount = 300 \<rparr>
         (QMatrix4x4 1 0 0 (- 31 / 32)  0 1 0 (- 1)  0 0 (- 1) (- 1 / 4)  0 0 (- 1) 0),
       EvDraw \<lparr> m_sModelName = ''vr_controller'', m_unVertexCount = 300 \<rparr>
         (QMatrix4x4 1 0 0 (33 / 32)  0 1 0 (- 1)  0 0 (- 1) (- 1 / 4)  0 0 (- 1) 0)]"
    unfolding proj same
    by (simp add: both_def cL cR demo_draw_left demo_draw_right)
  have r: "renderEye demo_env Left w' =
            ([EvGlClear, EvGlEnable GL_DEPTH_TEST,
              EvDraw \<lparr> m_sModelName = ''vr_controller'', m_unVertexCount = 300 \<rparr>
                (QMatrix4x4 1 0 0 (- 31 / 32)  0 1 0 (- 1)  0 0 (- 1) (- 1 / 4)  0 0 (- 1) 0),
              EvDraw \<lparr> m_sModelName = ''vr_controller'', m_unVertexCount = 300 \<rparr>
                (QMatrix4x4 1 0 0 (33 / 32)  0 1 0 (- 1)  0 0 (- 1) (- 1 / 4)  0 0 (- 1) 0),
              EvRender Left
                (times demo_env (translation_matrix (1 / 32) (- 2) 0)
                   (GetCameraMatrix demo_env w'))
                (QMatrix4x4 1 0 0 0  0 1 0 0  0 0 (- 1) (- 1 / 4)  0 0 (- 1) 0)],
             Inr ())"
    unfolding render vh draws using present by (simp add: proj pr)
  have mv: "map_option m_view (m_eyeInfos w' Left) = Some (translation_matrix (1 / 32) 0 0)"
    unfolding e' by (simp only: option.map view l)
  from C1_pose_pipeline [OF playing_widget_vr e, of untracked_env]
  obtain u' where run': "UpdatePositions untracked_env playing_widget = ([EvWaitGetPoses], Inr u')"
    and kept: "tracked_headsets (WaitGetPoses untracked_env) untracked_env
        k_unMaxTrackedDeviceCount = [] \<longrightarrow> m_hmdPose u' = m_hmdPose playing_widget"
    by blast
  have initial: "m_hmdPose playing_widget = identity_matrix"
    by (simp add: playing_widget_def ready_widget_def active_widget_def fresh_widget_def
        COpenVROpenGLWidget_ctor_def)
  have untracked: "m_hmdPose u' = identity_matrix"
    using kept untracked_no_headset initial by simp
  from run hmd' mv r have first: "\<exists>w'. UpdatePositions demo_env playing_widget = ([EvWaitGetPoses], Inr w')
        \<and> m_hmdPose w' = translation_matrix 0 (- 2) 0
        \<and> map_option m_view (m_eyeInfos w' Left) = Some (translation_matrix (1 / 32) 0 0)
        \<and> renderEye demo_env Left w' =
            ([EvGlClear, EvGlEnable GL_DEPTH_TEST,
              EvDraw \<lparr> m_sModelName = ''vr_controller'', m_unVertexCount = 300 \<rparr>
                (QMatrix4x4 1 0 0 (- 31 / 32)  0 1 0 (- 1)  0 0 (- 1) (- 1 / 4)  0 0 (- 1) 0),
              EvDraw \<lparr> m_sModelName = ''vr_controller'', m_unVertexCount = 300 \<rparr>
                (QMatrix4x4 1 0 0 (33 / 32)  0 1 0 (- 1)  0 0 (- 1) (- 1 / 4)  0 0 (- 1) 0),
              EvRender Left
                (times demo_env (translation_matrix (1 / 32) (- 2) 0)
                   (GetCameraMatrix demo_env w'))
                (QMatrix4x4 1 0 0 0  0 1 0 0  0 0 (- 1) (- 1 / 4)  0 0 (- 1) 0)],
             Inr ())"
    by blast
  from run' untracked have second: "\<exists>w'. UpdatePositions untracked_env playing_widget
        = ([EvWaitGetPoses], Inr w') \<and> m_hmdPose w' = identity_matrix"
    by blast
  from first second playing_widget_vr untracked_no_headset show ?thesis by blast
qed


subsection \<open>The order of a frame\<close>

lemma eye_steps_append [simp]: "eye_steps (a @ b) = eye_steps a @ eye_steps b"
  by (simp add: eye_steps_def)

lemma eye_steps_Nil [simp]: "eye_steps [] = []"
  by (simp add: eye_steps_def)

lemma eye_steps_Cons [simp]: "eye_steps (ev # t) = step_of ev @ eye_steps t"
  by (simp add: eye_steps_def)

lemma follows_abort [simp]: "follows ([], Inl e) xs"
  by (simp add: follows_def)

lemma follows_return: "eye_steps t = xs \<Longrightarrow> follows (t, Inr a) xs"
  by (simp add: follows_def)

lemma follows_and_then:
  assumes m: "follows m xs"
    and f: "\<And>a. snd m = Inr a \<Longrightarrow> follows (f a) ys"
  shows "follows (and_then m f) (xs @ ys)"
proof -
  obtain t r where mr: "m = (t, r)" by (cases m)
  show ?thesis
  proof (cases r)
    case (Inl e)
    with m mr show ?thesis
      by (simp add: follows_def)
  next
    case (Inr a)
    with m mr have t: "eye_steps t = xs" by (simp add: follows_def)
    from f [of a] Inr mr have fa: "follows (f a) ys" by simp
    from Inr mr t fa show ?thesis
      by (simp add: follows_def)
  qed
qed

lemma and_then_Inr_iff:
  "snd (and_then m f) = Inr b \<longleftrightarrow> (\<exists>a. snd m = Inr a \<and> snd (f a) = Inr b)"
  by (cases m; cases "snd m") (auto simp: and_then_def split: prod.splits)

lemma renderEye_hand_steps:
  "eye_steps (fst (renderEye_hand env v matVP hand u)) = []"
  by (simp add: renderEye_hand_def Draw_def split: option.splits)

lemma for_each_no_steps:
  assumes "\<And>i s. eye_steps (fst (body i s)) = []"
  shows "eye_steps (fst (for_each is body s)) = []"
proof (induction "is" arbitrary: s)
  case Nil
  show ?case by simp
next
  case (Cons i "is")
  obtain t r where b: "body i s = (t, r)" by (cases "body i s")
  with assms [of i s] have t: "eye_steps t = []" by simp
  show ?case
  proof (cases r)
    case (Inl e)
    with b t show ?thesis by simp
  next
    case (Inr s')
    with b t Cons [of s'] show ?thesis by simp
  qed
qed

lemma follows_no_steps: "eye_steps (fst m) = [] \<Longrightarrow> follows m []"
  by (simp add: follows_def)

lemma renderEye_follows: "follows (renderEye env eye v) [Rendered eye]"
proof (cases "m_eyeInfos v eye")
  case None
  then show ?thesis by (simp add: renderEye_def follows_def)
next
  case (Some e)
  have "follows (and_then ([EvGlClear, EvGlEnable GL_DEPTH_TEST], Inr ())
       (\<lambda>_. and_then (for_each both (renderEye_hand env v
                (times env (m_projection e) (times env (m_view e) (m_hmdPose v)))) ())
             (\<lambda>_. ([EvRender eye (times env (times env (m_view e) (m_hmdPose v))
                       (GetCameraMatrix env v)) (m_projection e)], Inr ()))))
     ([] @ [] @ [Rendered eye])"
    by (intro follows_and_then follows_return follows_no_steps for_each_no_steps
        renderEye_hand_steps) simp_all
  then show ?thesis
    by (simp add: renderEye_def Some GetProjectionMatrix_eye_def GetViewMatrix_def Let_def)
qed

lemma SetSurface_follows: "follows (SetSurface eye e) [Bound eye]"
  by (simp add: SetSurface_def follows_def split: option.splits)

lemma UnsetSurface_follows: "follows (UnsetSurface eye e) [Released eye, Resolved eye]"
  by (simp add: UnsetSurface_def follows_def Let_def split: option.splits)

lemma paintGL_eye_follows:
  "follows (paintGL_eye env eye v) [Bound eye, Rendered eye, Released eye, Resolved eye]"
proof (cases "m_eyeInfos v eye")
  case None
  then show ?thesis by (simp add: paintGL_eye_def)
next
  case (Some e)
  have "follows (and_then (SetSurface eye e)
            (\<lambda>_. and_then (renderEye env eye v)
               (\<lambda>_. and_then (UnsetSurface eye e) (\<lambda>_. ([], Inr v)))))
     ([Bound eye] @ [Rendered eye] @ [Released eye, Resolved eye] @ [])"
    by (intro follows_and_then SetSurface_follows renderEye_follows UnsetSurface_follows
        follows_return) simp
  then show ?thesis by (simp add: paintGL_eye_def Some)
qed

lemma paintGL_eye_state: "snd (paintGL_eye env eye v) = Inr v' \<Longrightarrow> v' = v"
  by (auto simp add: paintGL_eye_def and_then_Inr_iff split: option.splits)

lemma paintGL_submit_follows: "follows (paintGL_submit env eye v) [Submitted (to_EVREye eye)]"
  by (simp add: paintGL_submit_def Texture_def follows_def split: option.splits)

lemma paintGL_submit_state: "snd (paintGL_submit env eye v) = Inr v' \<Longrightarrow> v' = v"
  by (auto simp add: paintGL_submit_def Texture_def split: option.splits)

lemma for_each_both:
  "for_each both body s = and_then (body Left s) (\<lambda>s. and_then (body Right s) (\<lambda>s. ([], Inr s)))"
  by (simp add: both_def and_then_def split: prod.splits sum.splits)

lemma UpdatePositions_abort:
  assumes "m_eyeInfos w Left = None \<or> m_eyeInfos w Right = None"
  shows "UpdatePositions env w = ([], Inl NullPointerDereference)"
  using assms
  by (auto simp add: UpdatePositions_def both_def UpdatePositions_eye_def
      split: option.splits)

lemma UpdatePositions_follows:
  assumes "m_vrSystem w \<noteq> None"
  shows "follows (UpdatePositions env w) []"
    and "snd (UpdatePositions env w) = Inr w' \<Longrightarrow> m_vrSystem w' = m_vrSystem w"
proof -
  show "follows (UpdatePositions env w) []"
  proof (cases "m_eyeInfos w Left = None \<or> m_eyeInfos w Right = None")
    case True
    then show ?thesis by (simp add: UpdatePositions_abort)
  next
    case False
    then obtain eL eR where "m_eyeInfos w Left = Some eL" "m_eyeInfos w Right = Some eR"
      by auto
    from UpdatePositions_fields [OF assms this, of env] show ?thesis
      by (auto simp add: follows_def)
  qed
  show "m_vrSystem w' = m_vrSystem w" if "snd (UpdatePositions env w) = Inr w'"
  proof (cases "m_eyeInfos w Left = None \<or> m_eyeInfos w Right = None")
    case True
    with that show ?thesis by (simp add: UpdatePositions_abort)
  next
    case False
    then obtain eL eR where "m_eyeInfos w Left = Some eL" "m_eyeInfos w Right = Some eR"
      by auto
    from UpdatePositions_fields [OF assms this, of env] that show ?thesis
      by auto
  qed
qed

lemma paintGL_follows:
  assumes "m_vrSystem w \<noteq> None"
  shows "follows (paintGL env w) frame_order"
proof -
  have eyes: "follows (for_each both (paintGL_eye env) v)
      ([Bound Left, Rendered Left, Released Left, Resolved Left]
       @ [Bound Right, Rendered Right, Released Right, Resolved Right] @ [])" for v
    unfolding for_each_both
    by (intro follows_and_then paintGL_eye_follows follows_return) simp
  have eyes_state: "v' = v" if "snd (for_each both (paintGL_eye env) v) = Inr v'" for v v'
    using that unfolding for_each_both
    by (auto simp add: and_then_Inr_iff dest!: paintGL_eye_state)
  have submits: "follows (for_each both (paintGL_submit env) v)
      ([Submitted Eye_Left] @ [Submitted Eye_Right] @ [])" for v
    unfolding for_each_both
    using paintGL_submit_follows [of env Left] paintGL_submit_follows [of env Right]
    by (intro follows_and_then follows_return) simp_all
  then have submits': "follows (for_each both (paintGL_submit env) v)
      [Submitted Eye_Left, Submitted Eye_Right]" for v
    by simp
  have first: "follows
       (and_then (UpdatePositions env w)
            (\<lambda>w. and_then
               ([EvUpdateInputs,
                 EvGlClearColor (5033165 / 33554432) (5033165 / 33554432) (3019899 / 16777216) 1,
                 EvUpdateRendering], Inr w)
               (for_each both (paintGL_eye env))))
       ([] @ [] @ [Bound Left, Rendered Left, Released Left, Resolved Left]
          @ [Bound Right, Rendered Right, Released Right, Resolved Right] @ [])"
    by (intro follows_and_then UpdatePositions_follows(1) [OF assms] follows_return eyes) simp
  have first_state: "m_vrSystem v \<noteq> None"
    if "snd (and_then (UpdatePositions env w)
            (\<lambda>w. and_then
               ([EvUpdateInputs,
                 EvGlClearColor (5033165 / 33554432) (5033165 / 33554432) (3019899 / 16777216) 1,
                 EvUpdateRendering], Inr w)
               (for_each both (paintGL_eye env)))) = Inr v" for v
  proof -
    from that obtain w1 where u: "snd (UpdatePositions env w) = Inr w1"
      and e: "snd (for_each both (paintGL_eye env) w1) = Inr v"
      by (auto simp add: and_then_Inr_iff)
    from eyes_state [OF e] UpdatePositions_follows(2) [OF assms u] assms show ?thesis by simp
  qed
  have rest: "follows
       (and_then
          ([EvGlClearColor 0 0 0 1, EvGlViewport 0 0 (widget_width env) (widget_height env),
            EvGlDisable GL_MULTISAMPLE], Inr v)
          (\<lambda>w. and_then (renderEye env Right w)
             (\<lambda>_. and_then
                (if m_vrSystem w \<noteq> None then for_each both (paintGL_submit env) w
                 else ([], Inr w))
                (\<lambda>w. ([EvUpdate], Inr w)))))
       ([] @ [Rendered Right] @ ([Submitted Eye_Left] @ [Submitted Eye_Right] @ []) @ [])"
    if "m_vrSystem v \<noteq> None" for v
    using that
    by (intro follows_and_then follows_return renderEye_follows) (auto simp add: submits')
  have unfolded: "paintGL env w =
     and_then
       (and_then (UpdatePositions env w)
            (\<lambda>w. and_then
               ([EvUpdateInputs,
                 EvGlClearColor (5033165 / 33554432) (5033165 / 33554432) (3019899 / 16777216) 1,
                 EvUpdateRendering], Inr w)
               (for_each both (paintGL_eye env))))
       (\<lambda>w. and_then
          ([EvGlClearColor 0 0 0 1, EvGlViewport 0 0 (widget_width env) (widget_height env),
            EvGlDisable GL_MULTISAMPLE], Inr w)
          (\<lambda>w. and_then (renderEye env Right w)
             (\<lambda>_. and_then
                (if m_vrSystem w \<noteq> None then for_each both (paintGL_submit env) w
                 else ([], Inr w))
                (\<lambda>w. ([EvUpdate], Inr w)))))"
    using assms unfolding paintGL_def by simp
  have "follows (paintGL env w)
     (([] @ [] @ [Bound Left, Rendered Left, Released Left, Resolved Left]
          @ [Bound Right, Rendered Right, Released Right, Resolved Right] @ [])
      @ ([] @ [Rendered Right] @ ([Submitted Eye_Left] @ [Submitted Eye_Right] @ []) @ []))"
    unfolding unfolded
    by (rule follows_and_then [OF first]) (rule rest [OF first_state])
  then show ?thesis by (simp add: frame_order_def)
qed


subsection \<open>Null eye informations\<close>

lemma renderEye_null:
  "m_eyeInfos w eye = None \<Longrightarrow>
   renderEye env eye w = ([EvGlClear, EvGlEnable GL_DEPTH_TEST], Inl NullPointerDereference)"
  by (simp add: renderEye_def)

lemma paintGL_without_vr:
  assumes "m_vrSystem w = None"
  shows "paintGL env w =
     ([EvGlClearColor 0 0 0 1, EvGlViewport 0 0 (widget_width env) (widget_height env),
       EvGlDisable GL_MULTISAMPLE]
        @ fst (renderEye env Right w)
        @ (case snd (renderEye env Right w) of Inl a \<Rightarrow> [] | Inr u \<Rightarrow> [EvUpdate]),
      map_sum id (\<lambda>u. w) (snd (renderEye env Right w)))"
  using assms
  by (cases "renderEye env Right w"; cases "snd (renderEye env Right w)")
    (simp_all add: paintGL_def)






lemma initializeGL_success:
  assumes "\<not> InitializeVR_fails env"
  shows "snd (initializeGL env w) = Inr v \<longleftrightarrow>
     (\<exists>r. snd (InitializeEyesRendering env (w\<lparr> m_vrSystem := fst (VR_Init env) \<rparr>)) = Inr r
        \<and> (if fst r then \<exists>r'. snd (InitializeControllers env (snd r)) = Inr r' \<and> v = snd r'
            else v = snd r))"
proof -
  have "snd (initializeGL env w) = Inr v \<longleftrightarrow>
      (\<exists>r. snd (InitializeEyesRendering env (w\<lparr> m_vrSystem := fst (VR_Init env) \<rparr>)) = Inr r
        \<and> snd (if \<not> fst r then ([], Inr (snd r))
                else and_then (InitializeControllers env (snd r))
                  (\<lambda>r. ([EvInitializeRendering], Inr (snd r)))) = Inr v)"
    unfolding initializeGL_def InitializeVR_success [OF assms]
    by (simp only: and_then_Inr_iff snd_conv fst_conv sum.inject simp_thms ex_simps
        not_True_eq_False if_False)
  also have "\<dots> \<longleftrightarrow>
     (\<exists>r. snd (InitializeEyesRendering env (w\<lparr> m_vrSystem := fst (VR_Init env) \<rparr>)) = Inr r
        \<and> (if fst r then \<exists>r'. snd (InitializeControllers env (snd r)) = Inr r' \<and> v = snd r'
            else v = snd r))"
    by (rule ex_cong1) (auto simp add: and_then_Inr_iff)
  finally show ?thesis .
qed




subsection \<open>A whole frame\<close>

lemma paintGL_frame:
  assumes vr: "m_vrSystem w \<noteq> None"
    and eL: "m_eyeInfos w Left = Some eL" and eR: "m_eyeInfos w Right = Some eR"
    and fL: "m_frameBuffer eL = Some fL" and fR: "m_frameBuffer eR = Some fR"
    and rL: "m_resolveBuffer eL = Some rL" and rR: "m_resolveBuffer eR = Some rR"
    and shown: "\<forall>hand. m_bShowController (m_controllers w hand) \<longrightarrow>
                  m_pRenderModel (m_controllers w hand) \<noteq> None"
  shows "\<exists>w'. snd (UpdatePositions env w) = Inr w'
     \<and> paintGL env w =
        ([EvWaitGetPoses, EvUpdateInputs,
          EvGlClearColor (5033165 / 33554432) (5033165 / 33554432) (3019899 / 16777216) 1,
          EvUpdateRendering,
          EvGlViewport 0 0 (width (m_size eL)) (height (m_size eL)), EvGlEnable GL_MULTISAMPLE,
          EvBind Left fL]
         @ fst (renderEye env Left w')
         @ [EvRelease Left fL,
            EvBlit Left (Some rL) (QRect 0 0 (width (m_size eL)) (height (m_size eL)))
              (Some fL) (QRect 0 0 (width (m_size eL)) (height (m_size eL))),
            EvGlViewport 0 0 (width (m_size eR)) (height (m_size eR)), EvGlEnable GL_MULTISAMPLE,
            EvBind Right fR]
         @ fst (renderEye env Right w')
         @ [EvRelease Right fR,
            EvBlit Right (Some rR) (QRect 0 0 (width (m_size eR)) (height (m_size eR)))
              (Some fR) (QRect 0 0 (width (m_size eR)) (height (m_size eR))),
            EvGlClearColor 0 0 0 1,
            EvGlViewport 0 0 (widget_width env) (widget_height env),
            EvGlDisable GL_MULTISAMPLE]
         @ fst (renderEye env Right w')
         @ [EvSubmit Eye_Left (Texture_t (texture rL) TextureType_OpenGL ColorSpace_Gamma),
            EvSubmit Eye_Right (Texture_t (texture rR) TextureType_OpenGL ColorSpace_Gamma),
            EvUpdate],
         Inr w')"
proof -
  define eL' where "eL' = SetTransformMatrix
            (inverted env (vrMatrixToQt_34 (GetEyeToHeadTransform env Eye_Left)))
            (vrMatrixToQt_44 (GetProjectionMatrix env Eye_Left NEAR_CLIP FAR_CLIP)) eL"
  define eR' where "eR' = SetTransformMatrix
            (inverted env (vrMatrixToQt_34 (GetEyeToHeadTransform env Eye_Right)))
            (vrMatrixToQt_44 (GetProjectionMatrix env Eye_Right NEAR_CLIP FAR_CLIP)) eR"
  from UpdatePositions_fields [OF vr eL eR, of env]
  obtain w' where up: "UpdatePositions env w = ([EvWaitGetPoses], Inr w')"
    and vr': "m_vrSystem w' = m_vrSystem w"
    and eyes: "m_eyeInfos w' = (m_eyeInfos w)(Left := Some eL', Right := Some eR')"
    and ctl: "m_controllers w' =
         (\<lambda>hand. if tracked_controllers_of_hand (WaitGetPoses env) env k_unMaxTrackedDeviceCount hand = []
                  then m_controllers w hand
                  else (m_controllers w hand)
                    \<lparr> m_rmat4Pose := pose_matrix (WaitGetPoses env)
                        (last (tracked_controllers_of_hand (WaitGetPoses env) env
                                 k_unMaxTrackedDeviceCount hand)) \<rparr>)"
    unfolding eL'_def eR'_def by blast
  have eL': "m_eyeInfos w' Left = Some eL'" and eR': "m_eyeInfos w' Right = Some eR'"
    by (simp_all add: eyes)
  have buffers: "m_frameBuffer eL' = Some fL" "m_frameBuffer eR' = Some fR"
    "m_resolveBuffer eL' = Some rL" "m_resolveBuffer eR' = Some rR"
    "m_size eL' = m_size eL" "m_size eR' = m_size eR"
    by (simp_all add: eL'_def eR'_def SetTransformMatrix_def fL fR rL rR)
  have shown': "\<forall>hand. m_bShowController (m_controllers w' hand) \<longrightarrow>
                  m_pRenderModel (m_controllers w' hand) \<noteq> None"
    using shown by (simp add: ctl)
  obtain tL where tL: "renderEye env Left w' = (tL, Inr ())"
    using renderEye_result [OF eL' shown', of env] by simp
  obtain tR where tR: "renderEye env Right w' = (tR, Inr ())"
    using renderEye_result [OF eR' shown', of env] by simp
  have vr'': "m_vrSystem w' \<noteq> None" using vr vr' by simp
  have blockL: "paintGL_eye env Left w' =
      ([EvGlViewport 0 0 (width (m_size eL)) (height (m_size eL)), EvGlEnable GL_MULTISAMPLE,
        EvBind Left fL] @ tL
       @ [EvRelease Left fL,
          EvBlit Left (Some rL) (QRect 0 0 (width (m_size eL)) (height (m_size eL)))
            (Some fL) (QRect 0 0 (width (m_size eL)) (height (m_size eL)))], Inr w')"
    by (simp add: paintGL_eye_def eL' SetSurface_def UnsetSurface_def buffers tL Let_def)
  have blockR: "paintGL_eye env Right w' =
      ([EvGlViewport 0 0 (width (m_size eR)) (height (m_size eR)), EvGlEnable GL_MULTISAMPLE,
        EvBind Right fR] @ tR
       @ [EvRelease Right fR,
          EvBlit Right (Some rR) (QRect 0 0 (width (m_size eR)) (height (m_size eR)))
            (Some fR) (QRect 0 0 (width (m_size eR)) (height (m_size eR)))], Inr w')"
    by (simp add: paintGL_eye_def eR' SetSurface_def UnsetSurface_def buffers tR Let_def)
  have subL: "paintGL_submit env Left w' =
      ([EvSubmit Eye_Left (Texture_t (texture rL) TextureType_OpenGL ColorSpace_Gamma)], Inr w')"
    by (simp add: paintGL_submit_def eL' Texture_def buffers)
  have subR: "paintGL_submit env Right w' =
      ([EvSubmit Eye_Right (Texture_t (texture rR) TextureType_OpenGL ColorSpace_Gamma)], Inr w')"
    by (simp add: paintGL_submit_def eR' Texture_def buffers)
  have loop1: "for_each both (paintGL_eye env) w' =
      (fst (paintGL_eye env Left w') @ fst (paintGL_eye env Right w'), Inr w')"
    unfolding for_each_both by (simp add: blockL blockR)
  have loop2: "for_each both (paintGL_submit env) w' =
      (fst (paintGL_submit env Left w') @ fst (paintGL_submit env Right w'), Inr w')"
    unfolding for_each_both by (simp add: subL subR)
  have "paintGL env w =
        ([EvWaitGetPoses, EvUpdateInputs,
          EvGlClearColor (5033165 / 33554432) (5033165 / 33554432) (3019899 / 16777216) 1,
          EvUpdateRendering]
         @ fst (paintGL_eye env Left w') @ fst (paintGL_eye env Right w')
         @ [EvGlClearColor 0 0 0 1,
            EvGlViewport 0 0 (widget_width env) (widget_height env),
            EvGlDisable GL_MULTISAMPLE]
         @ tR
         @ fst (paintGL_submit env Left w') @ fst (paintGL_submit env Right w')
         @ [EvUpdate],
         Inr w')"
    using vr vr'' by (simp add: paintGL_def up loop1 loop2 tR)
  then show ?thesis
    by (simp add: up blockL blockR subL subR tL tR)
qed

lemma submitted_after_both_eyes:
  assumes "prefix p frame_order" and "Submitted eye \<in> set p"
  shows "prefix [Bound Left, Rendered Left, Released Left, Resolved Left,
                 Bound Right, Rendered Right, Released Right, Resolved Right,
                 Rendered Right] p"
proof -
  from assms(1) have "p \<in> set (prefixes frame_order)"
    by (simp only: in_set_prefixes)
  then show ?thesis
    using assms(2) by (auto simp add: frame_order_def)
qed

text \<open>
  The order of a frame. In every frame in which the VR system is active, what \<open>paintGL\<close>
  does to the eyes' buffers is a prefix of: bind the Left framebuffer, render the Left eye,
  release the framebuffer and blit it into the resolve framebuffer, the same for the Right
  eye, the mirror rendering, the submission of the Left and of the Right texture. A texture
  is submitted only after both eyes were rendered and resolved; a frame that returns has done
  all of the list. When both \<open>CEyeInfos\<close> and their framebuffers exist and every shown
  controller has a render model, the frame returns, the framebuffers bound and released are
  the multisampled ones, the blits go into the resolve framebuffers, and the textures
  submitted are the resolve framebuffers'.
\<close>

lemma paintGL_frame_order:
  assumes "m_vrSystem w \<noteq> None"
  shows "prefix (eye_steps (fst (paintGL env w))) frame_order
     \<and> (\<forall>w'. snd (paintGL env w) = Inr w' \<longrightarrow> eye_steps (fst (paintGL env w)) = frame_order)
     \<and> (\<forall>eye. Submitted eye \<in> set (eye_steps (fst (paintGL env w))) \<longrightarrow>
          prefix [Bound Left, Rendered Left, Released Left, Resolved Left,
                  Bound Right, Rendered Right, Released Right, Resolved Right,
                  Rendered Right] (eye_steps (fst (paintGL env w))))
     \<and> (\<forall>eL eR fL fR rL rR.
          m_eyeInfos w Left = Some eL \<and> m_eyeInfos w Right = Some eR
          \<and> m_frameBuffer eL = Some fL \<and> m_frameBuffer eR = Some fR
          \<and> m_resolveBuffer eL = Some rL \<and> m_resolveBuffer eR = Some rR
          \<and> (\<forall>hand. m_bShowController (m_controllers w hand) \<longrightarrow>
                  m_pRenderModel (m_controllers w hand) \<noteq> None) \<longrightarrow>
          (\<exists>w'. snd (UpdatePositions env w) = Inr w'
            \<and> paintGL env w =
        ([EvWaitGetPoses, EvUpdateInputs,
          EvGlClearColor (5033165 / 33554432) (5033165 / 33554432) (3019899 / 16777216) 1,
          EvUpdateRendering,
          EvGlViewport 0 0 (width (m_size eL)) (height (m_size eL)), EvGlEnable GL_MULTISAMPLE,
          EvBind Left fL]
         @ fst (renderEye env Left w')
         @ [EvRelease Left fL,
            EvBlit Left (Some rL) (QRect 0 0 (width (m_size eL)) (height (m_size eL)))
              (Some fL) (QRect 0 0 (width (m_size eL)) (height (m_size eL))),
            EvGlViewport 0 0 (width (m_size eR)) (height (m_size eR)), EvGlEnable GL_MULTISAMPLE,
            EvBind Right fR]
         @ fst (renderEye env Right w')
         @ [EvRelease Right fR,
            EvBlit Right (Some rR) (QRect 0 0 (width (m_size eR)) (height (m_size eR)))
              (Some fR) (QRect 0 0 (width (m_size eR)) (height (m_size eR))),
            EvGlClearColor 0 0 0 1,
            EvGlViewport 0 0 (widget_width env) (widget_height env),
            EvGlDisable GL_MULTISAMPLE]
         @ fst (renderEye env Right w')
         @ [EvSubmit Eye_Left (Texture_t (texture rL) TextureType_OpenGL ColorSpace_Gamma),
            EvSubmit Eye_Right (Texture_t (texture rR) TextureType_OpenGL ColorSpace_Gamma),
            EvUpdate],
         Inr w')))"
proof -
  note f = paintGL_follows [OF assms, of env]
  have a: "prefix (eye_steps (fst (paintGL env w))) frame_order"
    using f by (simp add: follows_def)
  have b: "\<forall>w'. snd (paintGL env w) = Inr w' \<longrightarrow> eye_steps (fst (paintGL env w)) = frame_order"
    using f by (simp add: follows_def)
  have c: "\<forall>eye. Submitted eye \<in> set (eye_steps (fst (paintGL env w))) \<longrightarrow>
          prefix [Bound Left, Rendered Left, Released Left, Resolved Left,
                  Bound Right, Rendered Right, Released Right, Resolved Right,
                  Rendered Right] (eye_steps (fst (paintGL env w)))"
    using submitted_after_both_eyes [OF a] by blast
  show ?thesis
    apply (intro conjI)
       apply (rule a)
      apply (rule b)
     apply (rule c)
    apply (intro allI impI)
    apply (elim conjE)
    apply (rule paintGL_frame [OF assms])
          apply assumption+
    done
qed

lemma ready_widget_buffers:
  "m_eyeInfos ready_widget eye = Some (snd (CEyeInfos_ctor demo_env (framebuffers demo_env eye)
                                         (QSize 1512 1680)))"
  "\<exists>fb. m_frameBuffer (snd (CEyeInfos_ctor demo_env (framebuffers demo_env eye)
                                         (QSize 1512 1680))) = Some fb"
  "\<exists>rb. m_resolveBuffer (snd (CEyeInfos_ctor demo_env (framebuffers demo_env eye)
                                         (QSize 1512 1680))) = Some rb"
  "\<not> m_bShowController (m_controllers ready_widget hand)"
  by (simp_all add: ready_widget_def active_widget_def fresh_widget_def
      COpenVROpenGLWidget_ctor_def CEyeInfos_ctor_def Let_def)

lemma paintGL_ready_widget:
  "m_vrSystem ready_widget \<noteq> None
   \<and> eye_steps (fst (paintGL demo_env ready_widget)) = frame_order"
proof -
  obtain fL fR rL rR where
    "m_frameBuffer (snd (CEyeInfos_ctor demo_env (framebuffers demo_env Left)
        (QSize 1512 1680))) = Some fL"
    "m_frameBuffer (snd (CEyeInfos_ctor demo_env (framebuffers demo_env Right)
        (QSize 1512 1680))) = Some fR"
    "m_resolveBuffer (snd (CEyeInfos_ctor demo_env (framebuffers demo_env Left)
        (QSize 1512 1680))) = Some rL"
    "m_resolveBuffer (snd (CEyeInfos_ctor demo_env (framebuffers demo_env Right)
        (QSize 1512 1680))) = Some rR"
    using ready_widget_buffers(2,3) by meson
  with paintGL_frame_order [OF ready_widget_vr, of demo_env] ready_widget_buffers(1,4)
  have "\<exists>w'. snd (paintGL demo_env ready_widget) = Inr w'"
    by (metis snd_conv)
  with paintGL_frame_order [OF ready_widget_vr, of demo_env] ready_widget_vr
  show ?thesis by blast
qed

subsection \<open>The frame after a failed render-model load\<close>

lemma paintGL_missing_model:
  assumes vr: "m_vrSystem w \<noteq> None"
    and eL: "m_eyeInfos w Left = Some eL" and eR: "m_eyeInfos w Right = Some eR"
    and fL: "m_frameBuffer eL = Some fL"
    and shown: "m_bShowController (m_controllers w Left)"
    and none: "m_pRenderModel (m_controllers w Left) = None"
  shows "paintGL env w =
     ([EvWaitGetPoses, EvUpdateInputs,
       EvGlClearColor (5033165 / 33554432) (5033165 / 33554432) (3019899 / 16777216) 1,
       EvUpdateRendering,
       EvGlViewport 0 0 (width (m_size eL)) (height (m_size eL)), EvGlEnable GL_MULTISAMPLE,
       EvBind Left fL, EvGlClear, EvGlEnable GL_DEPTH_TEST],
      Inl NullPointerDereference)"
proof -
  define eL' where "eL' = SetTransformMatrix
            (inverted env (vrMatrixToQt_34 (GetEyeToHeadTransform env Eye_Left)))
            (vrMatrixToQt_44 (GetProjectionMatrix env Eye_Left NEAR_CLIP FAR_CLIP)) eL"
  define eR' where "eR' = SetTransformMatrix
            (inverted env (vrMatrixToQt_34 (GetEyeToHeadTransform env Eye_Right)))
            (vrMatrixToQt_44 (GetProjectionMatrix env Eye_Right NEAR_CLIP FAR_CLIP)) eR"
  from UpdatePositions_fields [OF vr eL eR, of env]
  obtain w' where up: "UpdatePositions env w = ([EvWaitGetPoses], Inr w')"
    and eyes: "m_eyeInfos w' = (m_eyeInfos w)(Left := Some eL', Right := Some eR')"
    and ctl: "m_controllers w' =
         (\<lambda>hand. if tracked_controllers_of_hand (WaitGetPoses env) env k_unMaxTrackedDeviceCount hand = []
                  then m_controllers w hand
                  else (m_controllers w hand)
                    \<lparr> m_rmat4Pose := pose_matrix (WaitGetPoses env)
                        (last (tracked_controllers_of_hand (WaitGetPoses env) env
                                 k_unMaxTrackedDeviceCount hand)) \<rparr>)"
    unfolding eL'_def eR'_def by blast
  have eL': "m_eyeInfos w' Left = Some eL'"
    by (simp add: eyes)
  have buffers: "m_frameBuffer eL' = Some fL" "m_size eL' = m_size eL"
    by (simp_all add: eL'_def SetTransformMatrix_def fL)
  have left: "m_bShowController (m_controllers w' Left)"
    "m_pRenderModel (m_controllers w' Left) = None"
    using shown none by (simp_all add: ctl)
  have absent: "\<not> models_present w'"
    using left by (simp add: models_present_def)
  have draws: "shown_draws env w' matVP both = []" for matVP
    using left by (simp add: both_def)
  have r: "renderEye env Left w' =
      ([EvGlClear, EvGlEnable GL_DEPTH_TEST], Inl NullPointerDereference)"
    using renderEye_trace [OF eL', of env] absent by (simp add: draws)
  have blockL: "paintGL_eye env Left w' =
      ([EvGlViewport 0 0 (width (m_size eL)) (height (m_size eL)), EvGlEnable GL_MULTISAMPLE,
        EvBind Left fL, EvGlClear, EvGlEnable GL_DEPTH_TEST], Inl NullPointerDereference)"
    by (simp add: paintGL_eye_def eL' SetSurface_def buffers r)
  have loop1: "for_each both (paintGL_eye env) w' =
      ([EvGlViewport 0 0 (width (m_size eL)) (height (m_size eL)), EvGlEnable GL_MULTISAMPLE,
        EvBind Left fL, EvGlClear, EvGlEnable GL_DEPTH_TEST], Inl NullPointerDereference)"
    unfolding for_each_both by (simp add: blockL)
  show ?thesis
    using vr by (simp add: paintGL_def up loop1)
qed

lemma missing_model_LoadModel:
  "LoadModel missing_model_env ''vr_controller'' =
     ([EvDebug ''Unable to load render model vr_controller - VRRenderModelError_InvalidModel''],
      Inr None)"
  by (simp add: LoadModel_def missing_model_env_def demo_env_def poll.simps demo_arg_def)

lemma missing_model_initializeGL:
  "\<exists>w. snd (initializeGL missing_model_env fresh_widget) = Inr w
     \<and> m_vrSystem w \<noteq> None
     \<and> m_eyeInfos w Left =
         Some (snd (CEyeInfos_ctor missing_model_env (framebuffers missing_model_env Left)
                      (QSize 1512 1680)))
     \<and> m_eyeInfos w Right =
         Some (snd (CEyeInfos_ctor missing_model_env (framebuffers missing_model_env Right)
                      (QSize 1512 1680)))
     \<and> m_bShowController (m_controllers w Left)
     \<and> m_pRenderModel (m_controllers w Left) = None"
proof -
  have nf: "\<not> InitializeVR_fails missing_model_env"
    by (simp add: InitializeVR_fails_def missing_model_env_def demo_env_def)
  define w0 where "w0 = fresh_widget\<lparr> m_vrSystem := fst (VR_Init missing_model_env) \<rparr>"
  have vr0: "m_vrSystem w0 \<noteq> None"
    by (simp add: w0_def missing_model_env_def demo_env_def)
  have size: "QSize 1512 1680 =
      QSize (sint (fst (GetRecommendedRenderTargetSize missing_model_env)))
        (sint (snd (GetRecommendedRenderTargetSize missing_model_env)))"
    by (simp add: missing_model_env_def demo_env_def)
  define cL where "cL = snd (CEyeInfos_ctor missing_model_env
      (framebuffers missing_model_env Left) (QSize 1512 1680))"
  define cR where "cR = snd (CEyeInfos_ctor missing_model_env
      (framebuffers missing_model_env Right) (QSize 1512 1680))"
  define w1 where "w1 = w0\<lparr> m_eyeInfos := (m_eyeInfos w0)(Left := Some cL, Right := Some cR) \<rparr>"
  have valid: "IsValid cL" "IsValid cR"
    by (simp_all add: cL_def cR_def IsValid_def CEyeInfos_ctor_def missing_model_env_def
        demo_env_def new_QOpenGLFramebufferObject_def Let_def)
  have e: "snd (InitializeEyesRendering missing_model_env w0) = Inr (True, w1)"
    unfolding InitializeEyesRendering_result [OF vr0 size] w1_def cL_def [symmetric]
      cR_def [symmetric]
    using valid by simp
  have vr1: "m_vrSystem w1 \<noteq> None"
    using vr0 by (simp add: w1_def)
  have name: "getTrackedDeviceString missing_model_env i Prop_RenderModelName_String
      = ''vr_controller''" for i
    by (simp add: getTrackedDeviceString_def missing_model_env_def demo_env_def)
  have loads: "\<forall>i<k_unMaxTrackedDeviceCount.
      GetTrackedDeviceClass missing_model_env i = TrackedDeviceClass_Controller \<longrightarrow>
      (\<exists>p. snd (LoadModel missing_model_env
                  (getTrackedDeviceString missing_model_env i Prop_RenderModelName_String))
             = Inr p)"
    by (simp add: name missing_model_LoadModel)
  from InitializeControllers_fields [OF vr1 loads]
  obtain t w where ic: "InitializeControllers missing_model_env w1 = (t, Inr (True, w))"
    and vr: "m_vrSystem w = m_vrSystem w1"
    and eyes: "m_eyeInfos w = m_eyeInfos w1"
    and ctl: "m_controllers w =
         (\<lambda>hand. if controllers_of_hand missing_model_env k_unMaxTrackedDeviceCount hand = []
                  then m_controllers w1 hand
                  else (m_controllers w1 hand)
                    \<lparr> m_pRenderModel :=
                        loaded missing_model_env
                          (last (controllers_of_hand missing_model_env k_unMaxTrackedDeviceCount
                                   hand)),
                      m_bShowController := True \<rparr>)"
    by blast
  have left: "controllers_of_hand missing_model_env k_unMaxTrackedDeviceCount Left = [1]"
    using demo_left by (simp add: controllers_of_hand_def missing_model_env_def)
  have ld: "loaded missing_model_env i = None" for i
    by (simp add: loaded_def name missing_model_LoadModel)
  have run: "snd (initializeGL missing_model_env fresh_widget) = Inr w"
    unfolding initializeGL_success [OF nf] w0_def [symmetric]
    using e ic by simp
  have a: "m_vrSystem w \<noteq> None"
    using vr vr1 by simp
  have b: "m_eyeInfos w Left = Some cL" "m_eyeInfos w Right = Some cR"
    by (simp_all add: eyes w1_def)
  have c: "m_bShowController (m_controllers w Left)"
    "m_pRenderModel (m_controllers w Left) = None"
    by (simp_all add: ctl left ld)
  from run a b c show ?thesis
    unfolding cL_def cR_def by blast
qed

text \<open>
  C3. A frame with the VR system active that does not process the two eyes. The render model
  of the controllers fails to load (\<open>LoadRenderModel_Async\<close> answers error 301):
  \<open>LoadModel\<close> logs the error and returns null, and \<open>InitializeControllers\<close> stores the null
  pointer and sets \<open>m_bShowController\<close> all the same. After the constructor and
  \<open>initializeGL\<close>, which returns with the VR system up, \<open>paintGL\<close> binds the Left
  framebuffer, clears it, and stops in \<open>renderEye\<close> at the null render model of the Left
  controller: no eye is rendered, no framebuffer is released or resolved, and no texture is
  submitted.
\<close>

theorem C3_frame_stops_at_missing_render_model:
  "\<exists>w. snd (initializeGL missing_model_env fresh_widget) = Inr w
     \<and> m_vrSystem w \<noteq> None
     \<and> LoadModel missing_model_env ''vr_controller'' =
         ([EvDebug ''Unable to load render model vr_controller - VRRenderModelError_InvalidModel''],
          Inr None)
     \<and> m_bShowController (m_controllers w Left)
     \<and> m_pRenderModel (m_controllers w Left) = None
     \<and> paintGL missing_model_env w =
         ([EvWaitGetPoses, EvUpdateInputs,
           EvGlClearColor (5033165 / 33554432) (5033165 / 33554432) (3019899 / 16777216) 1,
           EvUpdateRendering,
           EvGlViewport 0 0 1512 1680, EvGlEnable GL_MULTISAMPLE,
           EvBind Left
             (new_QOpenGLFramebufferObject (True, 1) 1512 1680
                \<lparr> attachment = Depth, internalTextureFormat = GL_RGBA8, samples = 4 \<rparr>),
           EvGlClear, EvGlEnable GL_DEPTH_TEST],
          Inl NullPointerDereference)
     \<and> eye_steps (fst (paintGL missing_model_env w)) = [Bound Left]"
proof -
  define cL where "cL = snd (CEyeInfos_ctor missing_model_env
      (framebuffers missing_model_env Left) (QSize 1512 1680))"
  define cR where "cR = snd (CEyeInfos_ctor missing_model_env
      (framebuffers missing_model_env Right) (QSize 1512 1680))"
  from missing_model_initializeGL
  obtain w where run: "snd (initializeGL missing_model_env fresh_widget) = Inr w"
    and vr: "m_vrSystem w \<noteq> None"
    and eL: "m_eyeInfos w Left = Some cL" and eR: "m_eyeInfos w Right = Some cR"
    and shown: "m_bShowController (m_controllers w Left)"
    and none: "m_pRenderModel (m_controllers w Left) = None"
    unfolding cL_def cR_def by blast
  have fL: "m_frameBuffer cL = Some (new_QOpenGLFramebufferObject (True, 1) 1512 1680
                \<lparr> attachment = Depth, internalTextureFormat = GL_RGBA8, samples = 4 \<rparr>)"
    by (simp add: cL_def CEyeInfos_ctor_def missing_model_env_def demo_env_def Let_def)
  have sz: "m_size cL = QSize 1512 1680"
    by (simp add: cL_def CEyeInfos_ctor_def Let_def)
  have frame: "paintGL missing_model_env w =
         ([EvWaitGetPoses, EvUpdateInputs,
           EvGlClearColor (5033165 / 33554432) (5033165 / 33554432) (3019899 / 16777216) 1,
           EvUpdateRendering,
           EvGlViewport 0 0 1512 1680, EvGlEnable GL_MULTISAMPLE,
           EvBind Left
             (new_QOpenGLFramebufferObject (True, 1) 1512 1680
                \<lparr> attachment = Depth, internalTextureFormat = GL_RGBA8, samples = 4 \<rparr>),
           EvGlClear, EvGlEnable GL_DEPTH_TEST],
          Inl NullPointerDereference)"
    using paintGL_missing_model [OF vr eL eR fL shown none, of missing_model_env]
    by (simp add: sz)
  have steps: "eye_steps (fst (paintGL missing_model_env w)) = [Bound Left]"
    unfolding frame by simp
  from run vr shown none frame steps missing_model_LoadModel show ?thesis by blast
qed



text \<open>
  C5. The widget of a machine with no VR runtime: \<open>initializeGL\<close> returns with the widget
  as the constructor left it, and the first \<open>paintGL\<close> stops in the mirror rendering, at the
  null \<open>m_eyeInfos[Right]\<close>, before the \<open>Render\<close> hook is reached.
\<close>

theorem C5_mirror_view_without_vr:
  "snd (initializeGL no_runtime_env fresh_widget) = Inr fresh_widget
   \<and> m_vrSystem fresh_widget = None
   \<and> paintGL no_runtime_env fresh_widget =
       ([EvGlClearColor 0 0 0 1, EvGlViewport 0 0 1024 720, EvGlDisable GL_MULTISAMPLE,
         EvGlClear, EvGlEnable GL_DEPTH_TEST],
        Inl NullPointerDereference)"
proof -
  have n: "m_vrSystem fresh_widget = None" "m_eyeInfos fresh_widget Right = None"
    by (simp_all add: fresh_widget_def COpenVROpenGLWidget_ctor_def)
  have f: "InitializeVR_fails no_runtime_env"
    by (simp add: InitializeVR_fails_def no_runtime_env_def)
  have a: "snd (initializeGL no_runtime_env fresh_widget) = Inr fresh_widget"
    unfolding initializeGL_failure [OF n(1) f] by simp
  have b: "paintGL no_runtime_env fresh_widget =
       ([EvGlClearColor 0 0 0 1, EvGlViewport 0 0 1024 720, EvGlDisable GL_MULTISAMPLE,
         EvGlClear, EvGlEnable GL_DEPTH_TEST],
        Inl NullPointerDereference)"
    unfolding paintGL_without_vr [OF n(1)] renderEye_null [OF n(2)]
    by (simp add: no_runtime_env_def demo_env_def)
  from a n(1) b show ?thesis by blast
qed


end
